theory Spec2Isabelle
  imports Complex_Main "HOL-Library.Char_ord" "HOL-Library.List_Lexorder"
begin

section \<open>Values of the datetime module\<close>

text \<open>
  \<^verbatim>\<open>datetime.time\<close> (hour and minute; the program never sets seconds),
  \<^verbatim>\<open>datetime.date\<close> and the reading of \<^verbatim>\<open>datetime.datetime.now()\<close>.
  The library keeps \<open>hour < 24\<close> and \<open>minute < 60\<close> in every time value; the
  constructor \<open>datetime_time\<close> below raises \<^verbatim>\<open>ValueError\<close> outside that range.
  One run of the program reads the clock several times; the model takes one reading for
  the whole run.
\<close>

record time =
  hour :: nat
  minute :: nat

record date =
  year :: nat
  month :: nat
  day :: nat

record datetime =
  now_date :: date
  now_time :: time

datatype error =
    ValueError
  | IndexError
  | AssertionError
  | NameError
  | AttributeError
  | KeyError
  | TypeError
  | ZeroDivisionError
  | OverflowError

definition valid_time :: "time \<Rightarrow> bool" where
  "valid_time t = (hour t < 24 \<and> minute t < 60)"

definition datetime_time :: "int \<Rightarrow> int \<Rightarrow> error + time" where
  "datetime_time h m =
     (if 0 \<le> h \<and> h < 24 \<and> 0 \<le> m \<and> m < 60
      then Inr \<lparr>hour = nat h, minute = nat m\<rparr>
      else Inl ValueError)"

section \<open>Formatting\<close>

definition digit_char :: "nat \<Rightarrow> char" where
  "digit_char d = char_of (48 + d)"

fun decimal :: "nat \<Rightarrow> string" where
  "decimal n = (if n < 10 then [digit_char n] else decimal (n div 10) @ [digit_char (n mod 10)])"

declare decimal.simps [simp del]

text \<open>The two-digit, zero-padded fields of strftime: \<^verbatim>\<open>%y %m %d %H %M\<close>.\<close>

definition zero_pad2 :: "nat \<Rightarrow> string" where
  "zero_pad2 n = (if n < 10 then CHR ''0'' # decimal n else decimal n)"

text \<open>
  \<^verbatim>\<open>"{:02d}".format(i)\<close>: the sign counts in the width, so a negative number is
  never padded.
\<close>

definition format_02d :: "int \<Rightarrow> string" where
  "format_02d i = (if i < 0 then CHR ''-'' # decimal (nat (- i)) else zero_pad2 (nat i))"

text \<open>
  \<^verbatim>\<open>def minutes_to_hr(minutes:int) -> str:
    return "{:02d}h{:02d}m".format(minutes // 60, minutes % 60)\<close>
\<close>

definition minutes_to_hr :: "int \<Rightarrow> string" where
  "minutes_to_hr minutes = format_02d (minutes div 60) @ ''h'' @ format_02d (minutes mod 60) @ ''m''"

definition strftime_date :: "date \<Rightarrow> string" where
  "strftime_date d = zero_pad2 (year d mod 100) @ ''/'' @ zero_pad2 (month d) @ ''/'' @ zero_pad2 (day d)"

definition strftime_time :: "time \<Rightarrow> string" where
  "strftime_time t = zero_pad2 (hour t) @ ''h'' @ zero_pad2 (minute t)"

section \<open>Parsing a time of day\<close>

text \<open>
  \<^verbatim>\<open>datetime.datetime.strptime\<close> turns the format into a regular expression, compiled
  with \<^verbatim>\<open>re.IGNORECASE\<close>, matches it at the start of the string and raises
  \<^verbatim>\<open>ValueError\<close> when it does not match or when text remains after the match:
  \<^verbatim>\<open>%H\<close> is \<^verbatim>\<open>(2[0-3]|[0-1]\d|\d)\<close> and \<^verbatim>\<open>%M\<close> is \<^verbatim>\<open>([0-5]\d|\d)\<close>.
  Digits are the ASCII digits here.
\<close>

definition is_digit :: "char \<Rightarrow> bool" where
  "is_digit c = (CHR ''0'' \<le> c \<and> c \<le> CHR ''9'')"

definition is_h :: "char \<Rightarrow> bool" where
  "is_h c = (c = CHR ''h'' \<or> c = CHR ''H'')"

definition int_of_digits :: "string \<Rightarrow> nat" where
  "int_of_digits s = foldl (\<lambda>a c. 10 * a + (of_char c - 48)) 0 s"

text \<open>
  The group \<^verbatim>\<open>%H\<close> followed by the literal \<^verbatim>\<open>h\<close>: the text of the group and
  the rest of the string. The two-digit alternatives are tried first; when the
  \<^verbatim>\<open>h\<close> does not follow them the matcher backtracks to the one-digit alternative.
\<close>

fun re_H_h :: "string \<Rightarrow> (string \<times> string) option" where
  "re_H_h (a # b # c # rest) =
     (if ((a = CHR ''2'' \<and> CHR ''0'' \<le> b \<and> b \<le> CHR ''3'')
           \<or> (CHR ''0'' \<le> a \<and> a \<le> CHR ''1'' \<and> is_digit b)) \<and> is_h c
      then Some ([a, b], rest)
      else if is_digit a \<and> is_h b then Some ([a], c # rest)
      else None)"
| "re_H_h [a, b] = (if is_digit a \<and> is_h b then Some ([a], []) else None)"
| "re_H_h _ = None"

fun re_M :: "string \<Rightarrow> (string \<times> string) option" where
  "re_M (a # b # rest) =
     (if CHR ''0'' \<le> a \<and> a \<le> CHR ''5'' \<and> is_digit b then Some ([a, b], rest)
      else if is_digit a then Some ([a], b # rest)
      else None)"
| "re_M [a] = (if is_digit a then Some ([a], []) else None)"
| "re_M [] = None"

text \<open>\<^verbatim>\<open>strptime(s, "%Hh")\<close> and \<^verbatim>\<open>strptime(s, "%Hh%M")\<close>: hour and minute.\<close>

definition strptime_Hh :: "string \<Rightarrow> error + (nat \<times> nat)" where
  "strptime_Hh s =
     (case re_H_h s of
        None \<Rightarrow> Inl ValueError
      | Some (h, rest) \<Rightarrow> if rest = [] then Inr (int_of_digits h, 0) else Inl ValueError)"

definition strptime_HhM :: "string \<Rightarrow> error + (nat \<times> nat)" where
  "strptime_HhM s =
     (case re_H_h s of
        None \<Rightarrow> Inl ValueError
      | Some (h, rest) \<Rightarrow>
          (case re_M rest of
             None \<Rightarrow> Inl ValueError
           | Some (m, rest') \<Rightarrow>
               if rest' = [] then Inr (int_of_digits h, int_of_digits m) else Inl ValueError))"

definition endswith_h :: "string \<Rightarrow> bool" where
  "endswith_h s = (s \<noteq> [] \<and> last s = CHR ''h'')"

text \<open>
  \<^verbatim>\<open>def datetime_time_from_hour(hour:str) -> datetime.time:
    if hour is None: return None
    _ = datetime.datetime.strptime(hour, "%Hh" if hour.endswith('h') else "%Hh%M")
    return datetime.time(_.hour, _.minute)\<close>
\<close>

definition datetime_time_from_hour :: "string option \<Rightarrow> error + time option" where
  "datetime_time_from_hour h =
     (case h of
        None \<Rightarrow> Inr None
      | Some s \<Rightarrow>
          (case (if endswith_h s then strptime_Hh s else strptime_HhM s) of
             Inl e \<Rightarrow> Inl e
           | Inr (hh, mm) \<Rightarrow> Inr (Some \<lparr>hour = hh, minute = mm\<rparr>)))"

section \<open>Entry\<close>

text \<open>
  \<^verbatim>\<open>class Entry\<close>: a day, the time of arrival and the time of leaving, \<open>None\<close> while
  the session is open. Every entry the program builds has a start time (the loader reads
  it from a non-empty field, \<open>now_arrived\<close> from the clock).
\<close>

record Entry =
  date_base :: date
  time_start :: time
  time_stop :: "time option"

definition is_unfinished :: "Entry \<Rightarrow> bool" where
  "is_unfinished e = (time_stop e = None)"

definition hr_date :: "Entry \<Rightarrow> string" where
  "hr_date e = strftime_date (date_base e)"

definition hr_start :: "Entry \<Rightarrow> string" where
  "hr_start e = strftime_time (time_start e)"

definition hr_stop :: "Entry \<Rightarrow> string" where
  "hr_stop e = (case time_stop e of None \<Rightarrow> [] | Some t \<Rightarrow> strftime_time t)"

definition date_from_now :: "datetime \<Rightarrow> string" where
  "date_from_now clk = strftime_date (now_date clk)"

definition time_from_now :: "datetime \<Rightarrow> string" where
  "time_from_now clk = strftime_time (now_time clk)"

definition datetime_time_from_now :: "datetime \<Rightarrow> time" where
  "datetime_time_from_now clk = \<lparr>hour = hour (now_time clk), minute = minute (now_time clk)\<rparr>"

definition is_today :: "datetime \<Rightarrow> Entry \<Rightarrow> bool" where
  "is_today clk e = (hr_date e = date_from_now clk)"

text \<open>
  \<^verbatim>\<open>@property
  def working_time(self) -> datetime.time:
      start = self.time_start.hour * 60 + self.time_start.minute
      if self.is_unfinished():
          now = datetime_time_from_now()
          stop = now.hour * 60 + now.minute
      else:
          stop = self.time_stop.hour * 60 + self.time_stop.minute
      working_time = stop - start
      return datetime.time(hour=working_time // 60, minute=working_time % 60)\<close>
\<close>

definition working_time :: "datetime \<Rightarrow> Entry \<Rightarrow> error + time" where
  "working_time clk e =
     (let start = int (hour (time_start e)) * 60 + int (minute (time_start e));
          stop = (case time_stop e of
                    None \<Rightarrow>
                      (let now = datetime_time_from_now clk
                       in int (hour now) * 60 + int (minute now))
                  | Some t \<Rightarrow> int (hour t) * 60 + int (minute t));
          working_time = stop - start
      in datetime_time (working_time div 60) (working_time mod 60))"

text \<open>
  \<^verbatim>\<open>def set_finish_now(self):
      assert self.is_unfinished(), self
      self.time_stop = datetime_time_from_now()\<close>
  and \<open>set_start_now\<close> alike. The object is changed in place; the model returns it.
\<close>

definition set_finish_now :: "datetime \<Rightarrow> Entry \<Rightarrow> error + Entry" where
  "set_finish_now clk e =
     (if is_unfinished e then Inr (e\<lparr>time_stop := Some (datetime_time_from_now clk)\<rparr>)
      else Inl AssertionError)"

definition set_start_now :: "datetime \<Rightarrow> Entry \<Rightarrow> error + Entry" where
  "set_start_now clk e =
     (if is_unfinished e then Inr (e\<lparr>time_start := datetime_time_from_now clk\<rparr>)
      else Inl AssertionError)"

text \<open>
  \<^verbatim>\<open>Entry.now_arrived()\<close> is \<^verbatim>\<open>Entry.from_tuple(date_from_now(), time_from_now(), None)\<close>:
  the clock is printed as \<^verbatim>\<open>%y/%m/%d\<close> and \<^verbatim>\<open>%Hh%M\<close> and parsed back. For a
  reading of a real clock the parse cannot fail; it keeps month, day, hour and minute, and
  reads the two-digit year as 2000..2068 or 1969..1999.
\<close>

definition year_of_yy :: "nat \<Rightarrow> nat" where
  "year_of_yy yy = (if yy \<le> 68 then 2000 + yy else 1900 + yy)"

definition now_arrived :: "datetime \<Rightarrow> Entry" where
  "now_arrived clk =
     \<lparr>date_base = \<lparr>year = year_of_yy (year (now_date clk) mod 100),
                    month = month (now_date clk), day = day (now_date clk)\<rparr>,
      time_start = \<lparr>hour = hour (now_time clk), minute = minute (now_time clk)\<rparr>,
      time_stop = None\<rparr>"

section \<open>The accounting engine\<close>

text \<open>
  What \<^verbatim>\<open>run\<close> prints, one constructor for each \<^verbatim>\<open>print\<close> of the source, with the
  values it interpolates. \<open>Last_entry_ago\<close> carries the two dates whose difference is
  printed.
\<close>

datatype field = Int_field int | Str_field string

datatype line =
    Last_entry_today
  | Last_entry_ago date date
  | Changed_last_arrival
  | Oops_unfinished
  | Added_new_entry
  | Changed_last_entry
  | Changed_last_quit
  | Oops_no_unfinished
  | Statistics_on int bool string string
  | Worked_total string
  | Worked_too_much string string
  | Have_to_work string
  | Average_per_day string
  | Key_field string field

text \<open>
  \<^verbatim>\<open>print\<close> inside \<^verbatim>\<open>run\<close>: a function that prints nothing when \<^verbatim>\<open>porcelain\<close> is
  set, the built-in one otherwise.
\<close>

definition emit :: "bool \<Rightarrow> line \<Rightarrow> line list" where
  "emit porcelain l = (if porcelain then [] else [l])"

text \<open>\<^verbatim>\<open>max\<close> of a non-empty sequence.\<close>

definition max_list :: "string list \<Rightarrow> string" where
  "max_list ds = fold max (tl ds) (hd ds)"

text \<open>
  \<^verbatim>\<open>while entries[-1].hr_date == Entry.now_arrived().hr_date:
      entries.pop()\<close>
\<close>

function pop_today :: "string \<Rightarrow> Entry list \<Rightarrow> error + Entry list" where
  "pop_today today entries =
     (if entries = [] then Inl IndexError
      else if hr_date (last entries) = today then pop_today today (butlast entries)
      else Inr entries)"
  by pat_completeness auto
termination
  by (relation "measure (\<lambda>(today, entries). length entries)") auto

declare pop_today.simps [simp del]

text \<open>\<^verbatim>\<open>workamount[day] += worktime\<close> on a \<^verbatim>\<open>defaultdict(int)\<close>, which keeps the order in
  which the keys were first set.\<close>

fun add_amount :: "(string \<times> int) list \<Rightarrow> string \<Rightarrow> int \<Rightarrow> (string \<times> int) list" where
  "add_amount [] k w = [(k, 0 + w)]"
| "add_amount ((k', v) # kvs) k w =
     (if k' = k then (k', v + w) # kvs else (k', v) # add_amount kvs k w)"

text \<open>
  \<^verbatim>\<open>for entry in entries:
      worktime = entry.working_time
      worktime = (worktime.hour * 60 + worktime.minute)
      total_worktime += worktime
      workamount[entry.hr_date] += worktime\<close>
\<close>

fun account :: "datetime \<Rightarrow> Entry list \<Rightarrow> int \<times> (string \<times> int) list
                  \<Rightarrow> error + (int \<times> (string \<times> int) list)" where
  "account clk [] acc = Inr acc"
| "account clk (entry # entries) (total_worktime, workamount) =
     (case working_time clk entry of
        Inl err \<Rightarrow> Inl err
      | Inr t \<Rightarrow>
          (let worktime = int (hour t) * 60 + int (minute t)
           in account clk entries
                (total_worktime + worktime, add_amount workamount (hr_date entry) worktime)))"

text \<open>
  \<^verbatim>\<open>hours_per_day\<close> is a float or \<open>None\<close>. A float is a double: \<open>Finite m e\<close> is
  the number \<open>m * 2 ^ e\<close>, with \<open>\<bar>m\<bar> < 2 ^ 53\<close> and \<open>-1074 \<le> e \<le> 971\<close>; then the
  two infinities (\<open>Infinity True\<close> is the negative one) and the value that is no number.
  8.0 is \<open>Finite 8 0\<close>, 7.125 is \<open>Finite 57 (-3)\<close>, and 8.2 is the double
  \<open>Finite 2308094809027379 (-48)\<close>.
\<close>

datatype pyfloat = Finite int int | Infinity bool | NaN

text \<open>\<^verbatim>\<open>int.bit_length\<close>: the number of binary digits of \<open>\<bar>n\<bar>\<close>.\<close>

function bit_length :: "int \<Rightarrow> nat" where
  "bit_length n = (if n = 0 then 0 else Suc (bit_length (\<bar>n\<bar> div 2)))"
  by pat_completeness auto
termination
  by (relation "measure (\<lambda>n. nat \<bar>n\<bar>)") auto

declare bit_length.simps [simp del]

text \<open>\<open>n / 2 ^ s\<close> rounded to the nearest integer, a half to the even one.\<close>

definition round_shift :: "int \<Rightarrow> nat \<Rightarrow> int" where
  "round_shift n s =
     (let q = n div 2 ^ s; r = n mod 2 ^ s
      in if 2 * r < 2 ^ s then q
         else if 2 ^ s < 2 * r then q + 1
         else if even q then q else q + 1)"

text \<open>
  \<^verbatim>\<open>hours_per_day * 60\<close>, a product of doubles: the exact product \<open>(m * 60) * 2 ^ e\<close>
  rounded to 53 binary digits, to the nearest double and at a half to the even one; an
  infinity when the rounded product is \<open>2 ^ 1024\<close> or more. (The product is no smaller
  than the factor, so it is never rounded to a subnormal double.)
\<close>

definition float_times_60 :: "pyfloat \<Rightarrow> pyfloat" where
  "float_times_60 x =
     (case x of
        Finite m e \<Rightarrow>
          (let n = m * 60;
               s = bit_length n - 53;
               m' = round_shift n s;
               e' = e + int s
           in if 1024 < int (bit_length m') + e' then Infinity (n < 0)
              else Finite m' e')
      | Infinity neg \<Rightarrow> Infinity neg
      | NaN \<Rightarrow> NaN)"

text \<open>
  \<^verbatim>\<open>int(x)\<close> of a float drops the fraction, towards zero; it raises
  \<^verbatim>\<open>OverflowError\<close> on an infinity and \<^verbatim>\<open>ValueError\<close> on the value that is no
  number.
\<close>

definition py_int :: "pyfloat \<Rightarrow> error + int" where
  "py_int x =
     (case x of
        Finite m e \<Rightarrow>
          Inr (if 0 \<le> e then m * 2 ^ nat e
               else if 0 \<le> m then m div 2 ^ nat (- e)
               else - ((- m) div 2 ^ nat (- e)))
      | Infinity neg \<Rightarrow> Inl OverflowError
      | NaN \<Rightarrow> Inl ValueError)"

text \<open>\<^verbatim>\<open>if hours_per_day:\<close> holds for every float but the zeros.\<close>

definition float_truthy :: "pyfloat \<Rightarrow> bool" where
  "float_truthy x = (case x of Finite m e \<Rightarrow> m \<noteq> 0 | Infinity neg \<Rightarrow> True | NaN \<Rightarrow> True)"

definition optimal_worktime :: "pyfloat \<Rightarrow> error + int" where
  "optimal_worktime hours_per_day = py_int (float_times_60 hours_per_day)"

text \<open>
  \<^verbatim>\<open>for day in workamount:
      difftime.append(workamount[day] - optimal_worktime)\<close>
\<close>

definition difftime :: "(string \<times> int) list \<Rightarrow> int \<Rightarrow> int list" where
  "difftime workamount optimal = map (\<lambda>(day, w). w - optimal) workamount"

text \<open>\<^verbatim>\<open>round\<close> of a quotient: to the nearest integer, a half to the even one.\<close>

definition py_round :: "rat \<Rightarrow> int" where
  "py_round x =
     (let f = \<lfloor>x\<rfloor>; d = x - of_int f
      in if d < 1 / 2 then f
         else if 1 / 2 < d then f + 1
         else if even f then f else f + 1)"

text \<open>The dictionary \<^verbatim>\<open>outdata\<close>; the key \<^verbatim>\<open>total_difftime\<close> may be missing.\<close>

record outdata =
  nb_day :: int
  first_day :: string
  last_day :: string
  total_worktime :: int
  total_difftime :: "int option"
  average_per_day :: int

datatype retval = Ret_None | Ret_entries "Entry list" | Ret_outdata outdata

text \<open>
  The result of a call that does not raise: the caller's entry objects as the call
  leaves them (an entry is changed in place, a longer tuple is a new object), the lines
  printed, and the value returned. The entries of a log are distinct objects, as
  \<^verbatim>\<open>get_data\<close> builds them, so a change of the last one changes no other.
\<close>

record outcome =
  objects :: "Entry list"
  printed :: "line list"
  returned :: retval

text \<open>The namespace \<^verbatim>\<open>parse_cli\<close> returns, bound to the global \<^verbatim>\<open>args\<close> by the script.\<close>

record Args =
  arg_action :: string
  arg_dry_run :: bool
  arg_overwrite :: bool
  arg_porcelain :: bool
  arg_hours_per_day :: "pyfloat option"
  arg_not_today :: bool
  arg_timefile :: string


text \<open>
  \<^verbatim>\<open>if hours_per_day:
      optimal_worktime = int(hours_per_day * 60)
      ...
      outdata['total_difftime'] = sum(difftime)\<close>
  Without a target, or with a target of zero, the key is never set.
\<close>

definition deviation :: "pyfloat option \<Rightarrow> (string \<times> int) list \<Rightarrow> error + int option" where
  "deviation hours_per_day workamount =
     (case hours_per_day of
        None \<Rightarrow> Inr None
      | Some h \<Rightarrow>
          if \<not> float_truthy h then Inr None
          else
            (case optimal_worktime h of
               Inl err \<Rightarrow> Inl err
             | Inr optimal \<Rightarrow> Inr (Some (sum_list (difftime workamount optimal)))))"

text \<open>
  \<^verbatim>\<open>for k, v in outdata.items(): __builtins__.print(k, v)\<close>, in the order the keys
  were set, where \<^verbatim>\<open>__builtins__\<close> is the module of the built-in functions.
\<close>

definition porcelain_lines :: "outdata \<Rightarrow> line list" where
  "porcelain_lines d =
     [Key_field ''nb_day'' (Int_field (nb_day d)),
      Key_field ''first_day'' (Str_field (first_day d)),
      Key_field ''last_day'' (Str_field (last_day d)),
      Key_field ''total_worktime'' (Int_field (total_worktime d))]
     @ (case total_difftime d of
          None \<Rightarrow> []
        | Some t \<Rightarrow> [Key_field ''total_difftime'' (Int_field t)])
     @ [Key_field ''average_per_day'' (Int_field (average_per_day d))]"

text \<open>
  The module runs in one of two ways, told apart by the first argument of the functions
  below. \<open>Some a\<close>: the file runs as a script; the global \<^verbatim>\<open>args\<close> is bound to the
  namespace \<open>a\<close> and \<^verbatim>\<open>__builtins__\<close> is the module of the built-in functions.
  \<open>None\<close>: the module was imported, as \<^verbatim>\<open>notify.py\<close> imports it; the global
  \<^verbatim>\<open>args\<close> is unbound, so that reading \<^verbatim>\<open>args.overwrite\<close> raises \<^verbatim>\<open>NameError\<close>, and
  \<^verbatim>\<open>__builtins__\<close> is a dictionary, so that \<^verbatim>\<open>__builtins__.print\<close> raises
  \<^verbatim>\<open>AttributeError\<close>.

  The three branches of \<^verbatim>\<open>run\<close>. \<open>out0\<close> is what \<^verbatim>\<open>run\<close> printed before the branch.
  \<open>arrive\<close> and \<open>quit\<close> read the flag from the global \<^verbatim>\<open>args\<close> (\<^verbatim>\<open>if args.overwrite:\<close>).
\<close>

definition arrive :: "Args option \<Rightarrow> datetime \<Rightarrow> Entry list \<Rightarrow> bool \<Rightarrow> line list
                        \<Rightarrow> error + outcome" where
  "arrive args clk entries porcelain out0 =
     (if is_unfinished (last entries) then
        (case args of
           None \<Rightarrow> Inl NameError
         | Some a \<Rightarrow>
             if arg_overwrite a then
               (case set_start_now clk (last entries) of
                  Inl err \<Rightarrow> Inl err
                | Inr e \<Rightarrow>
                    (let entries' = butlast entries @ [e]
                     in Inr \<lparr>objects = entries',
                             printed = out0 @ emit porcelain Changed_last_arrival,
                             returned = Ret_entries entries'\<rparr>))
             else Inr \<lparr>objects = entries,
                       printed = out0 @ emit porcelain Oops_unfinished,
                       returned = Ret_None\<rparr>)
      else Inr \<lparr>objects = entries,
                printed = out0 @ emit porcelain Added_new_entry,
                returned = Ret_entries (entries @ [now_arrived clk])\<rparr>)"

definition quit :: "Args option \<Rightarrow> datetime \<Rightarrow> Entry list \<Rightarrow> bool \<Rightarrow> line list
                      \<Rightarrow> error + outcome" where
  "quit args clk entries porcelain out0 =
     (if is_unfinished (last entries) then
        (case set_finish_now clk (last entries) of
           Inl err \<Rightarrow> Inl err
         | Inr e \<Rightarrow>
             (let entries' = butlast entries @ [e]
              in Inr \<lparr>objects = entries',
                      printed = out0 @ emit porcelain Changed_last_entry,
                      returned = Ret_entries entries'\<rparr>))
      else
        (case args of
           None \<Rightarrow> Inl NameError
         | Some a \<Rightarrow>
             if arg_overwrite a then
               (case set_finish_now clk (last entries) of
                  Inl err \<Rightarrow> Inl err
                | Inr e \<Rightarrow>
                    (let entries' = butlast entries @ [e]
                     in Inr \<lparr>objects = entries',
                             printed = out0 @ emit porcelain Changed_last_quit,
                             returned = Ret_entries entries'\<rparr>))
             else Inr \<lparr>objects = entries,
                       printed = out0 @ emit porcelain Oops_no_unfinished,
                       returned = Ret_None\<rparr>))"

definition stats :: "Args option \<Rightarrow> datetime \<Rightarrow> Entry list \<Rightarrow> pyfloat option \<Rightarrow> bool \<Rightarrow> bool
                       \<Rightarrow> line list \<Rightarrow> error + outcome" where
  "stats args clk entries hours_per_day porcelain include_today out0 =
     (case (if \<not> include_today then pop_today (hr_date (now_arrived clk)) entries
            else Inr entries) of
        Inl err \<Rightarrow> Inl err
      | Inr entries' \<Rightarrow>
          (case account clk entries' (0, []) of
             Inl err \<Rightarrow> Inl err
           | Inr (total_wt, workamount) \<Rightarrow>
               if entries' = [] then Inl IndexError
               else
                 (let nb = int (length workamount);
                      first = hr_date (hd entries');
                      out1 = out0
                        @ emit porcelain
                            (Statistics_on nb include_today first (hr_date (last entries')))
                        @ emit porcelain (Worked_total (minutes_to_hr total_wt))
                  in case deviation hours_per_day workamount of
                       Inl err \<Rightarrow> Inl err
                     | Inr dev \<Rightarrow>
                         (let out2 =
                                (case dev of
                                   None \<Rightarrow> out1
                                 | Some d \<Rightarrow>
                                     out1 @ emit porcelain
                                       (if 0 < d then Worked_too_much (minutes_to_hr d) first
                                        else Have_to_work (minutes_to_hr (- d))))
                          in if workamount = [] then Inl ZeroDivisionError
                             else
                               (let avg = py_round (of_int (sum_list (map snd workamount))
                                                      / of_nat (length workamount));
                                    out3 = out2
                                      @ emit porcelain (Average_per_day (minutes_to_hr avg));
                                    d = \<lparr>nb_day = nb, first_day = first,
                                         last_day = hr_date (last entries'),
                                         total_worktime = total_wt, total_difftime = dev,
                                         average_per_day = avg\<rparr>
                                in if porcelain then
                                     (if args = None then Inl AttributeError
                                      else Inr \<lparr>objects = entries,
                                                printed = out3 @ porcelain_lines d,
                                                returned = Ret_outdata d\<rparr>)
                                   else Inr \<lparr>objects = entries, printed = out3,
                                             returned = Ret_outdata d\<rparr>)))))"

text \<open>
  \<^verbatim>\<open>def run(action, entries:[Entry]=None, overwrite:bool=False, dry_run:bool=False,
          hours_per_day:float=7.4, porcelain:bool=False, include_today:bool=True)\<close>
  with the entries already loaded, and the way the module runs and the clock made
  explicit. Without \<open>porcelain\<close> the first statement is \<^verbatim>\<open>print = __builtins__.print\<close>,
  which raises in an imported module. \<^verbatim>\<open>max\<close> raises \<^verbatim>\<open>ValueError\<close> on no entries;
  the assertion compares the dates as the strings \<^verbatim>\<open>yy/mm/dd\<close>. The body never reads
  \<open>overwrite\<close> and \<open>dry_run\<close>.
\<close>

definition run :: "Args option \<Rightarrow> datetime \<Rightarrow> string \<Rightarrow> Entry list \<Rightarrow> bool \<Rightarrow> bool
                     \<Rightarrow> pyfloat option \<Rightarrow> bool \<Rightarrow> bool \<Rightarrow> error + outcome" where
  "run args clk action entries overwrite dry_run hours_per_day porcelain include_today =
     (if \<not> porcelain \<and> args = None then Inl AttributeError
      else if entries = [] then Inl ValueError
      else if max_list (map hr_date entries) \<noteq> hr_date (last entries) then Inl AssertionError
      else
        (let last_entry_is_today = (hr_date (last entries) = hr_date (now_arrived clk));
             out0 = emit porcelain
                      (if last_entry_is_today then Last_entry_today
                       else Last_entry_ago (date_base (now_arrived clk))
                              (date_base (last entries)))
         in if action = ''arrive'' then arrive args clk entries porcelain out0
            else if action = ''quit'' then quit args clk entries porcelain out0
            else if action = ''stats'' then
              stats args clk entries hours_per_day porcelain include_today out0
            else Inr \<lparr>objects = entries, printed = out0, returned = Ret_entries entries\<rparr>))"

text \<open>
  The script: \<^verbatim>\<open>ret = run(args.action, entries, args.overwrite, args.dry_run,
  args.hours_per_day, args.porcelain, not args.not_today)\<close>, then \<^verbatim>\<open>set_data(ret)\<close>
  when \<^verbatim>\<open>ret\<close> is a non-empty tuple of entries and \<^verbatim>\<open>dry_run\<close> is off. The result is
  what was printed and the entries written to the file, \<open>None\<close> when nothing is written.
\<close>

definition main :: "Args \<Rightarrow> datetime \<Rightarrow> Entry list \<Rightarrow> error + (line list \<times> Entry list option)" where
  "main args clk entries =
     (case run (Some args) clk (arg_action args) entries (arg_overwrite args) (arg_dry_run args)
             (arg_hours_per_day args) (arg_porcelain args) (\<not> arg_not_today args) of
        Inl err \<Rightarrow> Inl err
      | Inr res \<Rightarrow>
          Inr (printed res,
               case returned res of
                 Ret_entries es \<Rightarrow> if es \<noteq> [] \<and> \<not> arg_dry_run args then Some es else None
               | Ret_None \<Rightarrow> None
               | Ret_outdata d \<Rightarrow> None))"

section \<open>The notification tool\<close>

text \<open>
  \<^verbatim>\<open>if stats['total_difftime'] > 10:
      sup = temps.minutes_to_hr(stats['total_difftime'])
      subprocess.Popen(['notify-send', f'OVERWORK: {sup}'])
  if stats['total_difftime'] < 10:
      sup = temps.minutes_to_hr(-stats['total_difftime'])
      subprocess.Popen(['notify-send', f'WORK NEEDED: {sup}'])\<close>
  The result lists the notifications sent, by kind, with the text after the colon.
\<close>

datatype notification = Overwork string | Work_needed string

definition notify :: "outdata \<Rightarrow> error + notification list" where
  "notify s =
     (case total_difftime s of
        None \<Rightarrow> Inl KeyError
      | Some d \<Rightarrow>
          Inr ((if 10 < d then [Overwork (minutes_to_hr d)] else [])
               @ (if d < 10 then [Work_needed (minutes_to_hr (- d))] else [])))"

definition is_overwork :: "notification \<Rightarrow> bool" where
  "is_overwork n = (case n of Overwork s \<Rightarrow> True | Work_needed s \<Rightarrow> False)"

text \<open>\<^verbatim>\<open>stats = temps.run('stats', hours_per_day=args.hours_per_day)\<close>, a call of
  \<^verbatim>\<open>run\<close> in the imported module \<^verbatim>\<open>temps\<close>.\<close>

definition notify_main :: "datetime \<Rightarrow> Entry list \<Rightarrow> pyfloat \<Rightarrow> error + notification list" where
  "notify_main clk entries hours_per_day =
     (case run None clk ''stats'' entries False False (Some hours_per_day) False True of
        Inl err \<Rightarrow> Inl err
      | Inr res \<Rightarrow>
          (case returned res of
             Ret_outdata s \<Rightarrow> notify s
           | Ret_None \<Rightarrow> Inl TypeError
           | Ret_entries es \<Rightarrow> Inl TypeError))"

section \<open>Notions used to state the properties\<close>

text \<open>
  The minutes an entry stands for: its end (the clock, for an open entry) minus its
  start. \<open>working_time\<close> returns them as a time of day when they are in range.
\<close>

definition worked_minutes :: "datetime \<Rightarrow> Entry \<Rightarrow> int" where
  "worked_minutes clk e =
     (case time_stop e of
        None \<Rightarrow> int (hour (now_time clk)) * 60 + int (minute (now_time clk))
      | Some t \<Rightarrow> int (hour t) * 60 + int (minute t))
     - (int (hour (time_start e)) * 60 + int (minute (time_start e)))"

text \<open>The minutes of the entries of one day.\<close>

definition day_minutes :: "datetime \<Rightarrow> Entry list \<Rightarrow> string \<Rightarrow> int" where
  "day_minutes clk es d = sum_list (map (worked_minutes clk) (filter (\<lambda>e. hr_date e = d) es))"

text \<open>
  The entries the statistics are computed on: all of them, or what is left once the
  entries of the clock's day have been taken off the end.
\<close>

definition counted :: "datetime \<Rightarrow> bool \<Rightarrow> Entry list \<Rightarrow> Entry list" where
  "counted clk include_today entries =
     (if include_today then entries
      else rev (dropWhile (\<lambda>e. hr_date e = hr_date (now_arrived clk)) (rev entries)))"

text \<open>\<^verbatim>\<open>workamount[k]\<close> read as a \<^verbatim>\<open>defaultdict(int)\<close> reads it: 0 for a missing key.\<close>

definition amount :: "(string \<times> int) list \<Rightarrow> string \<Rightarrow> int" where
  "amount wa k = (case map_of wa k of None \<Rightarrow> 0 | Some v \<Rightarrow> v)"

text \<open>The dictionary a call returned, if it returned one.\<close>

definition stats_record :: "error + outcome \<Rightarrow> outdata option" where
  "stats_record r =
     (case r of
        Inl err \<Rightarrow> None
      | Inr res \<Rightarrow>
          (case returned res of
             Ret_outdata d \<Rightarrow> Some d
           | Ret_None \<Rightarrow> None
           | Ret_entries es \<Rightarrow> None))"

subsection \<open>Concrete inputs\<close>

text \<open>
  The log of the scenario: 24/01/01 from 08h00 to 12h00 and 24/01/02 from 09h00 to 17h30;
  a clock reading on 24/01/03 at 10h00; a log whose only entry is an open session begun
  that day at 09h00; an entry that ends before it starts; and the namespace of a command
  line that gives the action and, or not, \<^verbatim>\<open>--overwrite\<close> and \<^verbatim>\<open>--not-today\<close>.
\<close>

definition scenario_log :: "Entry list" where
  "scenario_log =
     [\<lparr>date_base = \<lparr>year = 2024, month = 1, day = 1\<rparr>,
       time_start = \<lparr>hour = 8, minute = 0\<rparr>, time_stop = Some \<lparr>hour = 12, minute = 0\<rparr>\<rparr>,
      \<lparr>date_base = \<lparr>year = 2024, month = 1, day = 2\<rparr>,
       time_start = \<lparr>hour = 9, minute = 0\<rparr>, time_stop = Some \<lparr>hour = 17, minute = 30\<rparr>\<rparr>]"

definition scenario_clock :: datetime where
  "scenario_clock = \<lparr>now_date = \<lparr>year = 2024, month = 1, day = 3\<rparr>,
                      now_time = \<lparr>hour = 10, minute = 0\<rparr>\<rparr>"

definition today_log :: "Entry list" where
  "today_log =
     [\<lparr>date_base = \<lparr>year = 2024, month = 1, day = 3\<rparr>,
       time_start = \<lparr>hour = 9, minute = 0\<rparr>, time_stop = None\<rparr>]"

definition backwards_entry :: Entry where
  "backwards_entry =
     \<lparr>date_base = \<lparr>year = 2024, month = 1, day = 1\<rparr>,
      time_start = \<lparr>hour = 12, minute = 0\<rparr>, time_stop = Some \<lparr>hour = 8, minute = 0\<rparr>\<rparr>"

text \<open>The number a finite float stands for.\<close>

definition float_value :: "int \<Rightarrow> int \<Rightarrow> rat" where
  "float_value m e = (if 0 \<le> e then of_int m * 2 ^ nat e else of_int m / 2 ^ nat (- e))"

definition cli :: "string \<Rightarrow> bool \<Rightarrow> bool \<Rightarrow> Args" where
  "cli action overwrite not_today =
     \<lparr>arg_action = action, arg_dry_run = False, arg_overwrite = overwrite,
      arg_porcelain = False, arg_hours_per_day = None, arg_not_today = not_today,
      arg_timefile = ''./temps''\<rparr>"

text \<open>The namespace of the command line \<^verbatim>\<open>stats --hours-per-day h\<close>.\<close>

definition cli_stats :: "pyfloat \<Rightarrow> Args" where
  "cli_stats h = (cli ''stats'' False False)\<lparr>arg_hours_per_day := Some h\<rparr>"

section \<open>Formatting and parsing: lemmas\<close>

lemma of_char_digit_char: "d < 10 \<Longrightarrow> of_char (digit_char d) = 48 + d"
  by (simp add: digit_char_def)

lemma digit_char_le_iff:
  "d < 10 \<Longrightarrow> digit_char d \<le> c \<longleftrightarrow> 48 + d \<le> (of_char c :: nat)"
  "d < 10 \<Longrightarrow> c \<le> digit_char d \<longleftrightarrow> (of_char c :: nat) \<le> 48 + d"
  by (simp_all add: less_eq_char_def of_char_digit_char)

lemma digit_char_eq_iff:
  "d < 10 \<Longrightarrow> digit_char d = c \<longleftrightarrow> 48 + d = (of_char c :: nat)"
  by (metis of_char_digit_char of_char_eq_iff)

lemma is_digit_digit_char: "d < 10 \<Longrightarrow> is_digit (digit_char d)"
  by (simp add: is_digit_def digit_char_le_iff)

lemma not_is_h_digit_char: "d < 10 \<Longrightarrow> \<not> is_h (digit_char d)"
  by (auto simp: is_h_def digit_char_eq_iff)

lemma decimal_lt10: "n < 10 \<Longrightarrow> decimal n = [digit_char n]"
  by (simp add: decimal.simps)

lemma decimal_lt100:
  "10 \<le> n \<Longrightarrow> n < 100 \<Longrightarrow> decimal n = [digit_char (n div 10), digit_char (n mod 10)]"
  by (subst decimal.simps) (simp add: decimal_lt10)

lemma digit_char_0: "digit_char 0 = CHR ''0''"
  by (simp add: digit_char_eq_iff)

lemma zero_pad2_lt100:
  "n < 100 \<Longrightarrow> zero_pad2 n = [digit_char (n div 10), digit_char (n mod 10)]"
  by (cases "n < 10") (simp_all add: zero_pad2_def decimal_lt10 decimal_lt100 digit_char_0)

lemma int_of_digits_two:
  "a < 10 \<Longrightarrow> b < 10 \<Longrightarrow> int_of_digits [digit_char a, digit_char b] = 10 * a + b"
  by (simp add: int_of_digits_def of_char_digit_char)

lemma re_H_h_hour:
  assumes "h < 24"
  shows "re_H_h (zero_pad2 h @ CHR ''h'' # rest) = Some (zero_pad2 h, rest)"
proof -
  have d: "h div 10 < 10" "h mod 10 < 10" using assms by simp_all
  have "h div 10 = 2 \<and> h mod 10 \<le> 3 \<or> h div 10 \<le> 1" using assms by presburger
  then show ?thesis
    using d assms
    by (auto simp: zero_pad2_lt100 is_h_def is_digit_digit_char digit_char_le_iff digit_char_eq_iff)
qed

lemma re_M_minute:
  assumes "m < 60"
  shows "re_M (zero_pad2 m @ rest) = Some (zero_pad2 m, rest)"
proof -
  have d: "m div 10 < 10" "m mod 10 < 10" "m div 10 \<le> 5" using assms by simp_all
  then show ?thesis
    using assms
    by (auto simp: zero_pad2_lt100 is_digit_digit_char digit_char_le_iff)
qed

lemma int_of_digits_zero_pad2: "n < 100 \<Longrightarrow> int_of_digits (zero_pad2 n) = n"
  by (simp add: zero_pad2_lt100 int_of_digits_two)

lemma strptime_HhM_strftime:
  assumes "h < 24" "m < 60"
  shows "strptime_HhM (zero_pad2 h @ ''h'' @ zero_pad2 m) = Inr (h, m)"
  using assms re_H_h_hour [of h "zero_pad2 m"] re_M_minute [of m "[]"]
  by (simp add: strptime_HhM_def int_of_digits_zero_pad2)

lemma strptime_HhM_trailing:
  assumes "h < 24" "m < 60"
  shows "strptime_HhM (zero_pad2 h @ ''h'' @ zero_pad2 m @ ''m'') = Inl ValueError"
  using assms re_H_h_hour [of h "zero_pad2 m @ ''m''"] re_M_minute [of m "''m''"]
  by (simp add: strptime_HhM_def)


lemma is_digit_not_h: "is_digit c \<Longrightarrow> \<not> is_h c"
  by (auto simp: is_digit_def is_h_def less_eq_char_def)

lemma decimal_digits: "list_all is_digit (decimal n)"
proof (induction n rule: decimal.induct)
  case (1 n)
  show ?case
  proof (cases "n < 10")
    case True
    then show ?thesis by (simp add: decimal_lt10 is_digit_digit_char)
  next
    case False
    then have "list_all is_digit (decimal (n div 10))" using 1 by simp
    moreover have "decimal n = decimal (n div 10) @ [digit_char (n mod 10)]"
      using False by (subst decimal.simps) simp
    ultimately show ?thesis by (simp add: is_digit_digit_char)
  qed
qed

lemma decimal_not_Nil: "decimal n \<noteq> []"
  by (subst decimal.simps) simp

lemma decimal_ge100:
  assumes "100 \<le> n"
  shows "\<exists>a b c r. decimal n = a # b # c # r \<and> is_digit a \<and> is_digit b \<and> is_digit c"
proof -
  have "decimal n = decimal (n div 10) @ [digit_char (n mod 10)]"
    using assms by (subst decimal.simps) simp
  moreover have "\<not> n div 10 < 10" using assms by simp
  then have "decimal (n div 10) = decimal (n div 10 div 10) @ [digit_char (n div 10 mod 10)]"
    using decimal.simps [of "n div 10"] by simp
  ultimately have eq: "decimal n =
      decimal (n div 10 div 10) @ [digit_char (n div 10 mod 10), digit_char (n mod 10)]"
    by simp
  obtain a r where ar: "decimal (n div 10 div 10) = a # r"
    using decimal_not_Nil by (cases "decimal (n div 10 div 10)") auto
  obtain b c r' where "decimal n = a # b # c # r'"
    using eq ar by (cases r; cases "tl r") auto
  moreover have "list_all is_digit (decimal n)" by (rule decimal_digits)
  ultimately show ?thesis by auto
qed

lemma re_H_h_hour_ge24:
  assumes "24 \<le> h"
  shows "re_H_h (zero_pad2 h @ CHR ''h'' # rest) = None"
proof (cases "h < 100")
  case True
  have d: "h div 10 < 10" "h mod 10 < 10" using True by simp_all
  have "\<not> (h div 10 = 2 \<and> h mod 10 \<le> 3)" "\<not> h div 10 \<le> 1" using assms by presburger+
  then show ?thesis
    using d True
    by (auto simp: zero_pad2_lt100 not_is_h_digit_char digit_char_le_iff digit_char_eq_iff)
next
  case False
  then obtain a b c r where "decimal h = a # b # c # r" "is_digit a" "is_digit b" "is_digit c"
    using decimal_ge100 [of h] by auto
  then show ?thesis
    using False by (simp add: zero_pad2_def is_digit_not_h)
qed

lemma digit_char_mod_not_h: "digit_char (n mod 10) \<noteq> CHR ''h''"
  using not_is_h_digit_char [of "n mod 10"] by (simp add: is_h_def)

lemma last_zero_pad2: "n < 100 \<Longrightarrow> last (zero_pad2 n) = digit_char (n mod 10)"
  by (simp add: zero_pad2_lt100)

lemma format_02d_nonneg: "0 \<le> i \<Longrightarrow> format_02d i = zero_pad2 (nat i)"
  by (simp add: format_02d_def)

lemma minutes_to_hr_nonneg:
  "0 \<le> m \<Longrightarrow> minutes_to_hr m = zero_pad2 (nat (m div 60)) @ ''h'' @ zero_pad2 (nat (m mod 60)) @ ''m''"
  by (simp add: minutes_to_hr_def format_02d_nonneg)

lemma minutes_to_hr_rejected:
  assumes "0 \<le> m"
  shows "datetime_time_from_hour (Some (minutes_to_hr m)) = Inl ValueError"
proof -
  let ?h = "nat (m div 60)" and ?mi = "nat (m mod 60)"
  have mi: "?mi < 60" by simp
  have e: "\<not> endswith_h (minutes_to_hr m)"
    using assms by (simp add: minutes_to_hr_nonneg endswith_h_def)
  have "strptime_HhM (minutes_to_hr m) = Inl ValueError"
  proof (cases "?h < 24")
    case True
    then show ?thesis
      using strptime_HhM_trailing [OF True mi] assms by (simp add: minutes_to_hr_nonneg)
  next
    case False
    then show ?thesis
      using re_H_h_hour_ge24 [of ?h "zero_pad2 ?mi @ ''m''"] assms
      by (simp add: minutes_to_hr_nonneg strptime_HhM_def)
  qed
  then show ?thesis using e by (simp add: datetime_time_from_hour_def)
qed

lemma minutes_to_hr_butlast:
  assumes "0 \<le> m" "m < 1440"
  shows "datetime_time_from_hour (Some (butlast (minutes_to_hr m)))
           = Inr (Some \<lparr>hour = nat (m div 60), minute = nat (m mod 60)\<rparr>)"
proof -
  let ?h = "nat (m div 60)" and ?mi = "nat (m mod 60)"
  have mi: "?mi < 60" by simp
  have h: "?h < 24" using assms by simp
  have b: "butlast (minutes_to_hr m) = zero_pad2 ?h @ ''h'' @ zero_pad2 ?mi"
    using assms by (simp add: minutes_to_hr_nonneg butlast_append)
  have "last (zero_pad2 ?h @ ''h'' @ zero_pad2 ?mi) = digit_char (?mi mod 10)"
    using mi by (simp add: zero_pad2_lt100)
  then have e: "\<not> endswith_h (butlast (minutes_to_hr m))"
    using b by (simp add: endswith_h_def digit_char_mod_not_h)
  show ?thesis
    using e b strptime_HhM_strftime [OF h mi] by (simp add: datetime_time_from_hour_def)
qed

lemma strftime_time_roundtrip:
  assumes "valid_time t"
  shows "datetime_time_from_hour (Some (strftime_time t)) = Inr (Some t)"
proof -
  have h: "hour t < 24" and mi: "minute t < 60" using assms by (simp_all add: valid_time_def)
  have "last (strftime_time t) = digit_char (minute t mod 10)"
    using mi by (simp add: strftime_time_def zero_pad2_lt100)
  then have e: "\<not> endswith_h (strftime_time t)"
    by (simp add: endswith_h_def digit_char_mod_not_h)
  show ?thesis
    using e strptime_HhM_strftime [OF h mi]
    by (simp add: datetime_time_from_hour_def strftime_time_def)
qed

text \<open>
  Claim C3, as amended. The claim says that parsing the text of \<open>minutes_to_hr m\<close>
  with the time-of-day parser gives back hours \<open>m div 60\<close> and minutes \<open>m mod 60\<close>.
  \<open>minutes_to_hr\<close> ends its text with the letter m, which neither format of the parser
  accepts: for every \<open>m \<ge> 0\<close> the parser raises \<^verbatim>\<open>ValueError\<close> on it. When
  \<open>m < 1440\<close> (less than a day, so that the hours are a time of day), the text without
  its last character parses to hours \<open>m div 60\<close> and minutes \<open>m mod 60\<close>.
\<close>

theorem minutes_to_hr_parse:
  "0 \<le> m \<Longrightarrow>
     datetime_time_from_hour (Some (minutes_to_hr m)) = Inl ValueError
     \<and> (m < 1440 \<longrightarrow>
          datetime_time_from_hour (Some (butlast (minutes_to_hr m)))
            = Inr (Some \<lparr>hour = nat (m div 60), minute = nat (m mod 60)\<rparr>))"
  by (simp add: minutes_to_hr_rejected minutes_to_hr_butlast)

theorem minutes_to_hr_parse_witness:
  "(0::int) \<le> 90 \<and> (90::int) < 1440
   \<and> datetime_time_from_hour (Some (minutes_to_hr 90)) = Inl ValueError
   \<and> datetime_time_from_hour (Some (butlast (minutes_to_hr 90)))
       = Inr (Some \<lparr>hour = 1, minute = 30\<rparr>)"
  using minutes_to_hr_parse [of 90] by simp

text \<open>
  The claim as stated fails at \<open>m = 90\<close>: \<open>minutes_to_hr 90\<close> is \<^verbatim>\<open>01h30m\<close>, and the
  parser raises on it instead of returning one hour and thirty minutes.
\<close>

theorem minutes_to_hr_parse_counterexample:
  "minutes_to_hr 90 = ''01h30m''
   \<and> datetime_time_from_hour (Some (minutes_to_hr 90)) \<noteq> Inr (Some \<lparr>hour = 1, minute = 30\<rparr>)"
  by code_simp

section \<open>The product of floats\<close>

lemma round_shift_nearest: "2 * \<bar>round_shift n s * 2 ^ s - n\<bar> \<le> 2 ^ s"
proof -
  define p :: int where "p = 2 ^ s"
  define q where "q = n div p"
  define r where "r = n mod p"
  have p: "0 < p" by (simp add: p_def)
  have r: "0 \<le> r" "r < p" using p by (simp_all add: r_def)
  have n: "n = q * p + r" by (simp add: q_def r_def)
  have down: "\<bar>q * p - n\<bar> = r" using n r by simp
  have "(q + 1) * p - n = p - r" using n by (simp add: algebra_simps)
  then have up: "\<bar>(q + 1) * p - n\<bar> = p - r" using r by simp
  have rs: "round_shift n s =
      (if 2 * r < p then q else if p < 2 * r then q + 1 else if even q then q else q + 1)"
    by (simp add: round_shift_def Let_def p_def q_def r_def)
  show ?thesis
    unfolding p_def [symmetric] rs
    using down up by (simp split: if_splits)
qed

lemma round_shift_exact: "round_shift n 0 = n"
  by (simp add: round_shift_def)

lemma optimal_worktime_8: "optimal_worktime (Finite 8 0) = Inr 480"
  by code_simp

lemma optimal_worktime_7_125: "optimal_worktime (Finite 57 (- 3)) = Inr 427"
  by code_simp

lemma optimal_worktime_8_2: "optimal_worktime (Finite 2308094809027379 (- 48)) = Inr 491"
  by code_simp

lemma optimal_worktime_0_7: "optimal_worktime (Finite 3152519739159347 (- 52)) = Inr 42"
  by code_simp

lemma optimal_worktime_7_4: "optimal_worktime (Finite 4165829655317709 (- 49)) = Inr 444"
  by code_simp

lemma optimal_worktime_inf:
  "optimal_worktime (Infinity neg) = Inl OverflowError" "optimal_worktime NaN = Inl ValueError"
  by (simp_all add: optimal_worktime_def float_times_60_def py_int_def)

section \<open>The duration of an entry\<close>

lemma working_time_error: "working_time clk e = Inl err \<Longrightarrow> err = ValueError"
  by (auto simp: working_time_def datetime_time_def Let_def split: if_splits)

lemma working_time_worked_minutes:
  "working_time clk e = datetime_time (worked_minutes clk e div 60) (worked_minutes clk e mod 60)"
  by (simp add: working_time_def worked_minutes_def datetime_time_from_now_def Let_def
        split: option.splits)

lemma working_time_negative:
  assumes "worked_minutes clk e < 0"
  shows "working_time clk e = Inl ValueError"
proof -
  have "worked_minutes clk e div 60 < 0" using assms by simp
  then show ?thesis by (simp add: working_time_worked_minutes datetime_time_def)
qed

lemma working_time_Inr:
  assumes "working_time clk e = Inr t"
  shows "int (hour t) * 60 + int (minute t) = worked_minutes clk e"
proof -
  let ?w = "worked_minutes clk e"
  have r: "0 \<le> ?w div 60" "t = \<lparr>hour = nat (?w div 60), minute = nat (?w mod 60)\<rparr>"
    using assms by (auto simp: working_time_worked_minutes datetime_time_def split: if_splits)
  have "int (nat (?w div 60)) * 60 + int (nat (?w mod 60)) = ?w"
    using r(1) by simp
  then show ?thesis using r(2) by simp
qed

lemma working_time_ok:
  assumes "0 \<le> worked_minutes clk e" "worked_minutes clk e < 1440"
  shows "working_time clk e
           = Inr \<lparr>hour = nat (worked_minutes clk e div 60),
                  minute = nat (worked_minutes clk e mod 60)\<rparr>"
proof -
  have "0 \<le> worked_minutes clk e div 60" "worked_minutes clk e div 60 < 24"
    using assms by simp_all
  then show ?thesis by (simp add: working_time_worked_minutes datetime_time_def)
qed

lemma account_raises:
  "e \<in> set entries \<Longrightarrow> working_time clk e = Inl ValueError
     \<Longrightarrow> account clk entries acc = Inl ValueError"
proof (induction entries arbitrary: acc)
  case Nil
  then show ?case by simp
next
  case (Cons x xs)
  obtain t w where acc: "acc = (t, w)" by (cases acc)
  show ?case
  proof (cases "working_time clk x")
    case (Inl err)
    then show ?thesis using working_time_error [OF Inl] acc by simp
  next
    case (Inr u)
    then have "e \<in> set xs" using Cons.prems by auto
    then show ?thesis using Cons.IH Cons.prems(2) Inr acc by (simp add: Let_def)
  qed
qed

lemma run_unfold:
  assumes "args \<noteq> None \<or> porcelain"
    and "entries \<noteq> []" "max_list (map hr_date entries) = hr_date (last entries)"
  shows "run args clk action entries ov dr h porcelain it =
           (let out0 = emit porcelain
               (if hr_date (last entries) = hr_date (now_arrived clk) then Last_entry_today
                else Last_entry_ago (date_base (now_arrived clk)) (date_base (last entries)))
            in if action = ''arrive'' then arrive args clk entries porcelain out0
               else if action = ''quit'' then quit args clk entries porcelain out0
               else if action = ''stats'' then stats args clk entries h porcelain it out0
               else Inr \<lparr>objects = entries, printed = out0, returned = Ret_entries entries\<rparr>)"
  using assms by (auto simp: run_def Let_def)

lemma run_imported_prints:
  "run None clk action entries ov dr h False it = Inl AttributeError"
  by (simp add: run_def)

section \<open>The accounting loop\<close>

lemma map_of_add_amount:
  "map_of (add_amount wa k w) = (map_of wa)(k \<mapsto> amount wa k + w)"
  by (induction wa) (auto simp: amount_def fun_eq_iff)

lemma map_fst_add_amount:
  "map fst (add_amount wa k w) = (if k \<in> fst ` set wa then map fst wa else map fst wa @ [k])"
  by (induction wa) (fastforce simp: image_iff)+

lemma keys_add_amount:
  "fst ` set (add_amount wa k w) = insert k (fst ` set wa)"
  using map_fst_add_amount [of wa k w, THEN arg_cong, of set] by (auto split: if_splits)

lemma distinct_add_amount:
  "distinct (map fst wa) \<Longrightarrow> distinct (map fst (add_amount wa k w))"
  by (simp add: map_fst_add_amount)

lemma amount_add_amount:
  "amount (add_amount wa k w) k' = amount wa k' + (if k' = k then w else 0)"
  by (simp add: amount_def map_of_add_amount)

lemma day_minutes_Cons:
  "day_minutes clk (e # es) k = (if hr_date e = k then worked_minutes clk e else 0) + day_minutes clk es k"
  by (simp add: day_minutes_def)

lemma account_inv:
  "account clk es (t0, wa0) = Inr (t, wa) \<Longrightarrow> distinct (map fst wa0) \<Longrightarrow>
     t = t0 + sum_list (map (worked_minutes clk) es)
     \<and> distinct (map fst wa)
     \<and> set (map fst wa) = set (map fst wa0) \<union> hr_date ` set es
     \<and> (\<forall>k. amount wa k = amount wa0 k + day_minutes clk es k)"
proof (induction es arbitrary: t0 wa0)
  case Nil
  then show ?case by (simp add: day_minutes_def)
next
  case (Cons e es)
  from Cons.prems(1) obtain u where u: "working_time clk e = Inr u"
    by (cases "working_time clk e") auto
  let ?w = "worked_minutes clk e"
  have w: "int (hour u) * 60 + int (minute u) = ?w" by (rule working_time_Inr [OF u])
  have a: "account clk es (t0 + ?w, add_amount wa0 (hr_date e) ?w) = Inr (t, wa)"
    using Cons.prems(1) u w by (simp add: Let_def)
  have d: "distinct (map fst (add_amount wa0 (hr_date e) ?w))"
    by (rule distinct_add_amount [OF Cons.prems(2)])
  from Cons.IH [OF a d] show ?case
    by (auto simp: keys_add_amount amount_add_amount day_minutes_Cons)
qed

lemma account_empty_acc:
  assumes "account clk es (0, []) = Inr (t, wa)"
  shows "t = sum_list (map (worked_minutes clk) es)"
    and "distinct (map fst wa)"
    and "set (map fst wa) = hr_date ` set es"
    and "amount wa k = day_minutes clk es k"
  using account_inv [OF assms] by (simp_all add: amount_def)

lemma amount_member:
  "distinct (map fst wa) \<Longrightarrow> (k, w) \<in> set wa \<Longrightarrow> amount wa k = w"
  by (simp add: amount_def)

lemma sum_list_difftime:
  assumes "distinct (map fst wa)"
  shows "sum_list (difftime wa opt) = (\<Sum>k\<in>set (map fst wa). amount wa k - opt)"
proof -
  have "difftime wa opt = map (\<lambda>k. amount wa k - opt) (map fst wa)"
    using assms by (auto simp: difftime_def amount_member)
  then show ?thesis
    using assms by (simp only: sum_list_distinct_conv_sum_set)
qed

lemma account_ok:
  "\<forall>e\<in>set es. 0 \<le> worked_minutes clk e \<and> worked_minutes clk e < 1440 \<Longrightarrow>
     \<exists>r. account clk es acc = Inr r"
proof (induction es arbitrary: acc)
  case Nil
  then show ?case by simp
next
  case (Cons e es)
  obtain t w where acc: "acc = (t, w)" by (cases acc)
  have "working_time clk e
          = Inr \<lparr>hour = nat (worked_minutes clk e div 60),
                 minute = nat (worked_minutes clk e mod 60)\<rparr>"
    using Cons.prems by (simp add: working_time_ok)
  then show ?case using Cons.IH Cons.prems acc by (simp add: Let_def)
qed

section \<open>Leaving today out\<close>

lemma pop_today_Inr:
  "pop_today today es = Inr es' \<Longrightarrow>
     es' = rev (dropWhile (\<lambda>e. hr_date e = today) (rev es)) \<and> es' \<noteq> []"
proof (induction today es rule: pop_today.induct)
  case (1 today entries)
  show ?case
  proof (cases entries rule: rev_cases)
    case Nil
    then show ?thesis using "1.prems" by (simp add: pop_today.simps)
  next
    case (snoc xs x)
    then have ne: "entries \<noteq> []" and bl: "butlast entries = xs" and la: "last entries = x"
      by simp_all
    show ?thesis
    proof (cases "hr_date x = today")
      case True
      then have p: "pop_today today (butlast entries) = Inr es'"
        using "1.prems" snoc by (simp add: pop_today.simps [of today "xs @ [x]"])
      have l: "hr_date (last entries) = today" using True la by simp
      have eq: "dropWhile (\<lambda>e. hr_date e = today) (rev entries)
                   = dropWhile (\<lambda>e. hr_date e = today) (rev (butlast entries))"
        using True snoc by simp
      show ?thesis unfolding eq by (rule "1.IH" [OF ne l p])
    next
      case False
      then have "es' = xs @ [x]"
        using "1.prems" snoc by (simp add: pop_today.simps [of today "xs @ [x]"])
      then show ?thesis using False snoc by simp
    qed
  qed
qed

lemma pop_today_all_today:
  "\<forall>e\<in>set es. hr_date e = today \<Longrightarrow> pop_today today es = Inl IndexError"
proof (induction today es rule: pop_today.induct)
  case (1 today entries)
  show ?case
  proof (cases "entries = []")
    case True
    then show ?thesis by (simp add: pop_today.simps)
  next
    case False
    then have l: "hr_date (last entries) = today" using "1.prems" by simp
    have "\<forall>e\<in>set (butlast entries). hr_date e = today"
      using "1.prems" by (auto dest: in_set_butlastD)
    from "1.IH" [OF False l this] show ?thesis
      using False l by (simp add: pop_today.simps [of today entries])
  qed
qed


section \<open>Arriving and leaving\<close>

text \<open>
  What \<open>arrive\<close> does on an open log when the script was started with
  \<^verbatim>\<open>--overwrite\<close>, so that the global \<^verbatim>\<open>args\<close> holds the flag: the start of the last
  entry becomes the clock's time, nothing else changes and the entry stays open.
\<close>

lemma arrive_overwrite_script:
  assumes "entries \<noteq> []"
    and "max_list (map hr_date entries) = hr_date (last entries)"
    and "is_unfinished (last entries)"
    and "arg_overwrite a"
  shows "\<exists>res. run (Some a) clk ''arrive'' entries ov dr h porcelain it = Inr res
           \<and> returned res = Ret_entries (objects res)
           \<and> objects res = butlast entries @ [(last entries)\<lparr>time_start := now_time clk\<rparr>]
           \<and> is_unfinished (last (objects res))"
proof -
  have u: "Some a \<noteq> None \<or> porcelain" by simp
  show ?thesis
    using assms
    by (simp add: run_unfold [OF u assms(1,2)] arrive_def set_start_now_def Let_def
          datetime_time_from_now_def is_unfinished_def)
qed

text \<open>
  Claim C5 fails on the code as a statement about the argument \<open>overwrite\<close> of \<open>run\<close>:
  the body reads \<^verbatim>\<open>args.overwrite\<close>, the global of the script, and never its own
  argument. Called with \<open>overwrite\<close> true from a module that imports \<^verbatim>\<open>temps\<close> (no
  global \<^verbatim>\<open>args\<close>), \<open>run\<close> raises \<^verbatim>\<open>NameError\<close> on the open log; and were the global
  bound with the flag off, the same call would decline and change nothing.
\<close>

theorem arrive_overwrite_argument_unread:
  "is_unfinished (last today_log)
   \<and> run None scenario_clock ''arrive'' today_log True False None True True = Inl NameError
   \<and> run (Some (cli ''arrive'' False False)) scenario_clock ''arrive'' today_log True False None
        True True
       = Inr \<lparr>objects = today_log, printed = [], returned = Ret_None\<rparr>"
  by code_simp

text \<open>
  Claim C6. For every log (not empty, and passing the assertion of \<open>run\<close> on its dates)
  whose last entry is unfinished, \<open>arrive\<close> without the overwrite flag (the flag as the
  code reads it, \<^verbatim>\<open>args.overwrite\<close>; whatever the other arguments) changes no entry,
  returns \<open>None\<close> instead of a log and, unless \<open>porcelain\<close> silences it, prints the
  message of the conflict; the script then writes nothing to the file.
\<close>

theorem arrive_open_declined:
  assumes "entries \<noteq> []"
    and "max_list (map hr_date entries) = hr_date (last entries)"
    and "is_unfinished (last entries)"
    and "\<not> arg_overwrite a"
  shows "(\<exists>res. run (Some a) clk ''arrive'' entries ov dr h porcelain it = Inr res
            \<and> objects res = entries \<and> returned res = Ret_None
            \<and> (porcelain \<or> Oops_unfinished \<in> set (printed res)))
         \<and> (arg_action a = ''arrive'' \<longrightarrow> (\<exists>ls. main a clk entries = Inr (ls, None)))"
proof -
  have u: "Some a \<noteq> None \<or> p" for p by simp
  show ?thesis
    using assms
    by (simp add: main_def run_unfold [OF u assms(1,2)] arrive_def Let_def emit_def)
qed

text \<open>The theorem at the log whose only entry is today's open session, for the command
  line \<^verbatim>\<open>arrive\<close>.\<close>

theorem arrive_open_declined_witness:
  "today_log \<noteq> []
   \<and> max_list (map hr_date today_log) = hr_date (last today_log)
   \<and> is_unfinished (last today_log)
   \<and> \<not> arg_overwrite (cli ''arrive'' False False)
   \<and> arg_action (cli ''arrive'' False False) = ''arrive''
   \<and> (\<exists>res. run (Some (cli ''arrive'' False False)) scenario_clock ''arrive'' today_log
                False False None False True = Inr res
          \<and> objects res = today_log \<and> returned res = Ret_None
          \<and> Oops_unfinished \<in> set (printed res))
   \<and> (\<exists>ls. main (cli ''arrive'' False False) scenario_clock today_log = Inr (ls, None))"
proof -
  have h1: "today_log \<noteq> []" by (simp add: today_log_def)
  have h2: "max_list (map hr_date today_log) = hr_date (last today_log)"
    by (simp add: today_log_def max_list_def)
  have h3: "is_unfinished (last today_log)" by (simp add: today_log_def is_unfinished_def)
  have h4: "\<not> arg_overwrite (cli ''arrive'' False False)" by (simp add: cli_def)
  have h5: "arg_action (cli ''arrive'' False False) = ''arrive''" by (simp add: cli_def)
  show ?thesis
    using arrive_open_declined [OF h1 h2 h3 h4, of scenario_clock False False None False True]
      h1 h2 h3 h4 h5
    by simp
qed

text \<open>
  Claim C9. For every log (not empty, and passing the assertion of \<open>run\<close> on its dates)
  whose last entry is unfinished, \<open>quit\<close> returns the log it was given with one change:
  the end of the last entry is the clock's time. The length, every entry before the last,
  and the day and the start of the last entry are as before, and the last entry is
  finished. This is \<open>quit\<close> where \<open>run\<close> can print: as the script, or in an imported
  module with \<open>porcelain\<close> set (an imported \<open>run\<close> without \<open>porcelain\<close> raises on
  its first statement, whatever the action: lemma \<open>run_imported_prints\<close>).
\<close>

theorem quit_open:
  assumes "args \<noteq> None \<or> porcelain"
    and "entries \<noteq> []"
    and "max_list (map hr_date entries) = hr_date (last entries)"
    and "is_unfinished (last entries)"
  shows "\<exists>res. run args clk ''quit'' entries ov dr h porcelain it = Inr res
           \<and> returned res = Ret_entries (objects res)
           \<and> length (objects res) = length entries
           \<and> butlast (objects res) = butlast entries
           \<and> date_base (last (objects res)) = date_base (last entries)
           \<and> time_start (last (objects res)) = time_start (last entries)
           \<and> time_stop (last (objects res)) = Some (now_time clk)
           \<and> \<not> is_unfinished (last (objects res))"
  using assms(2-)
  by (simp add: run_unfold [OF assms(1,2,3)] quit_def set_finish_now_def Let_def
        datetime_time_from_now_def is_unfinished_def)

text \<open>The theorem at the log whose only entry is today's open session, at 10h00, for the
  command line \<^verbatim>\<open>quit\<close>.\<close>

theorem quit_open_witness:
  "today_log \<noteq> []
   \<and> max_list (map hr_date today_log) = hr_date (last today_log)
   \<and> is_unfinished (last today_log)
   \<and> (\<exists>res. run (Some (cli ''quit'' False False)) scenario_clock ''quit'' today_log
                False False None False True = Inr res
          \<and> returned res = Ret_entries (objects res)
          \<and> length (objects res) = length today_log
          \<and> butlast (objects res) = butlast today_log
          \<and> date_base (last (objects res)) = date_base (last today_log)
          \<and> time_start (last (objects res)) = time_start (last today_log)
          \<and> time_stop (last (objects res)) = Some \<lparr>hour = 10, minute = 0\<rparr>
          \<and> \<not> is_unfinished (last (objects res)))"
proof -
  have h1: "today_log \<noteq> []" by (simp add: today_log_def)
  have h2: "max_list (map hr_date today_log) = hr_date (last today_log)"
    by (simp add: today_log_def max_list_def)
  have h3: "is_unfinished (last today_log)" by (simp add: today_log_def is_unfinished_def)
  have n: "now_time scenario_clock = \<lparr>hour = 10, minute = 0\<rparr>" by (simp add: scenario_clock_def)
  have h0: "Some (cli ''quit'' False False) \<noteq> None \<or> False" by simp
  show ?thesis
    using quit_open [OF h0 h1 h2 h3, of scenario_clock False False None True] h1 h2 h3 n
    by simp
qed


section \<open>The notifications\<close>

text \<open>
  Claim C4, as amended. Given a dictionary whose total deviation is \<open>d\<close>, the tool sends
  an overwork notification exactly when \<open>d > 10\<close>, and then nothing else; it sends one
  work-needed notification, and nothing else, when \<open>d < -10\<close>; at \<open>d = 10\<close> it sends
  nothing. (The claim has an overwork notification for every \<open>d > 0\<close> and some
  notification as soon as \<open>|d| \<ge> 10\<close>. What the tool sends for \<open>-10 \<le> d < 10\<close> is
  left out here.)
\<close>

theorem notify_dispatch:
  "total_difftime s = Some d \<Longrightarrow>
     (10 < d \<longrightarrow> notify s = Inr [Overwork (minutes_to_hr d)])
     \<and> (d < - 10 \<longrightarrow> notify s = Inr [Work_needed (minutes_to_hr (- d))])
     \<and> (d = 10 \<longrightarrow> notify s = Inr [])
     \<and> (\<forall>ns. notify s = Inr ns \<longrightarrow> (list_ex is_overwork ns \<longleftrightarrow> 10 < d))"
  by (auto simp: notify_def is_overwork_def)

text \<open>The theorem at deviations of 11 and of -11 minutes.\<close>

theorem notify_dispatch_witness:
  "notify \<lparr>nb_day = 1, first_day = ''24/01/01'', last_day = ''24/01/01'', total_worktime = 491,
           total_difftime = Some 11, average_per_day = 491\<rparr> = Inr [Overwork ''00h11m'']
   \<and> notify \<lparr>nb_day = 1, first_day = ''24/01/01'', last_day = ''24/01/01'', total_worktime = 469,
           total_difftime = Some (- 11), average_per_day = 469\<rparr> = Inr [Work_needed ''00h11m'']"
proof -
  have m: "minutes_to_hr 11 = ''00h11m''" by code_simp
  show ?thesis
    using m
      notify_dispatch [of "\<lparr>nb_day = 1, first_day = ''24/01/01'', last_day = ''24/01/01'',
        total_worktime = 491, total_difftime = Some 11, average_per_day = 491\<rparr>" 11]
      notify_dispatch [of "\<lparr>nb_day = 1, first_day = ''24/01/01'', last_day = ''24/01/01'',
        total_worktime = 469, total_difftime = Some (- 11), average_per_day = 469\<rparr>" "- 11"]
    by simp
qed

text \<open>
  The claim as stated fails at a deviation of 10 minutes: it is positive and at the
  threshold, and the tool sends nothing.
\<close>

theorem notify_dispatch_counterexample:
  "notify \<lparr>nb_day = 1, first_day = ''24/01/01'', last_day = ''24/01/01'', total_worktime = 490,
           total_difftime = Some 10, average_per_day = 490\<rparr> = Inr []"
  by (simp add: notify_def)

text \<open>
  The tool as it is started: its call of \<open>run\<close> is a call in an imported module without
  \<open>porcelain\<close>, which raises before anything is computed, so that the tool sends nothing.
\<close>

lemma notify_main_raises: "notify_main clk entries h = Inl AttributeError"
  by (simp add: notify_main_def run_def)

section \<open>What stats counts and returns\<close>

lemma pop_today_eq:
  "pop_today today es =
     (if rev (dropWhile (\<lambda>e. hr_date e = today) (rev es)) = [] then Inl IndexError
      else Inr (rev (dropWhile (\<lambda>e. hr_date e = today) (rev es))))"
proof (induction es rule: rev_induct)
  case Nil
  then show ?case by (simp add: pop_today.simps)
next
  case (snoc x xs)
  have "pop_today today (xs @ [x]) =
      (if hr_date x = today then pop_today today xs else Inr (xs @ [x]))"
    by (simp add: pop_today.simps [of today "xs @ [x]"])
  then show ?case using snoc.IH by simp
qed

lemma popped_counted:
  "(if \<not> it then pop_today (hr_date (now_arrived clk)) entries else Inr entries)
     = (if \<not> it \<and> counted clk it entries = [] then Inl IndexError
        else Inr (counted clk it entries))"
  by (simp add: counted_def pop_today_eq)

lemma set_counted: "set (counted clk it entries) \<subseteq> set entries"
  by (auto simp: counted_def dest: set_dropWhileD)

lemma stats_raises:
  assumes "e \<in> set (counted clk it entries)" "working_time clk e = Inl ValueError"
  shows "stats args clk entries h porcelain it out0 = Inl ValueError"
proof -
  have "counted clk it entries \<noteq> []" using assms(1) by auto
  then show ?thesis
    using account_raises [OF assms] by (simp add: stats_def popped_counted)
qed

lemma run_stats_unfold:
  assumes "args \<noteq> None \<or> porcelain"
    and "entries \<noteq> []" "max_list (map hr_date entries) = hr_date (last entries)"
  shows "run args clk ''stats'' entries ov dr h porcelain it =
           stats args clk entries h porcelain it
             (emit porcelain
               (if hr_date (last entries) = hr_date (now_arrived clk) then Last_entry_today
                else Last_entry_ago (date_base (now_arrived clk)) (date_base (last entries))))"
  by (simp add: run_unfold [OF assms] Let_def)

lemma run_stats_Inr:
  assumes "run args clk ''stats'' entries ov dr h porcelain it = Inr res"
  shows "\<exists>out0. stats args clk entries h porcelain it out0 = Inr res"
  using assms by (auto simp: run_def Let_def split: if_splits)

lemma stats_Inr:
  assumes "stats args clk entries h porcelain it out0 = Inr res"
  shows "\<exists>t wa dev. account clk (counted clk it entries) (0, []) = Inr (t, wa)
           \<and> deviation h wa = Inr dev
           \<and> objects res = entries
           \<and> returned res = Ret_outdata
                \<lparr>nb_day = int (length wa),
                 first_day = hr_date (hd (counted clk it entries)),
                 last_day = hr_date (last (counted clk it entries)),
                 total_worktime = t,
                 total_difftime = dev,
                 average_per_day =
                   py_round (of_int (sum_list (map snd wa)) / of_nat (length wa))\<rparr>"
proof -
  let ?es = "counted clk it entries"
  obtain t wa where a: "account clk ?es (0, []) = Inr (t, wa)"
    using assms by (auto simp: stats_def popped_counted split: sum.splits if_splits)
  obtain dev where d: "deviation h wa = Inr dev"
    using assms a by (auto simp: stats_def popped_counted Let_def split: sum.splits if_splits)
  show ?thesis
    using assms a d
    by (auto simp: stats_def popped_counted Let_def split: if_splits)
qed

lemma stats_imported_porcelain: "stats None clk entries h True it out0 \<noteq> Inr res"
  by (auto simp: stats_def Let_def split: sum.splits if_splits prod.splits)

lemma stats_porcelain:
  "map_sum id (\<lambda>r. (objects r, returned r)) (stats (Some a) clk entries h True it out0)
     = map_sum id (\<lambda>r. (objects r, returned r)) (stats (Some a) clk entries h False it out0')"
  by (simp add: stats_def Let_def split: sum.splits prod.splits)

lemma account_ok_ex:
  assumes "\<forall>e\<in>set es. 0 \<le> worked_minutes clk e \<and> worked_minutes clk e < 1440"
  shows "\<exists>t wa. account clk es (0, []) = Inr (t, wa)"
  using account_ok [OF assms, of "(0, [])"] by auto

text \<open>
  As the script, and without a target, \<open>stats\<close> returns a dictionary for every log that
  passes the assertion and whose entries each stand for a number of minutes from 0 to
  1439 (today included).
\<close>

lemma run_stats_returns:
  assumes "entries \<noteq> []"
    and "max_list (map hr_date entries) = hr_date (last entries)"
    and "\<forall>e\<in>set entries. 0 \<le> worked_minutes clk e \<and> worked_minutes clk e < 1440"
  shows "\<exists>res. run (Some a) clk ''stats'' entries ov dr None porcelain True = Inr res"
proof -
  obtain t wa where a: "account clk entries (0, []) = Inr (t, wa)"
    using account_ok_ex [OF assms(3)] by auto
  have "fst ` set wa = hr_date ` set entries"
    using account_empty_acc(3) [OF a] by simp
  then have "wa \<noteq> []" using assms(1) by auto
  moreover have u: "Some a \<noteq> None \<or> porcelain" by simp
  ultimately show ?thesis
    using a assms(1)
    by (simp add: run_stats_unfold [OF u assms(1,2)] stats_def deviation_def Let_def)
qed

text \<open>
  Claim C8, as amended. The claim says that for an entry whose end precedes its start the
  duration is computed without failing, as a negative count of minutes that reaches the
  statistics. \<open>working_time\<close> returns the duration as a \<^verbatim>\<open>datetime.time\<close>, built with
  \<^verbatim>\<open>hour=working_time // 60\<close>; for a negative count that hour is negative and the
  constructor raises \<^verbatim>\<open>ValueError\<close>. So: for every finished entry whose end precedes
  its start, \<open>working_time\<close> raises \<^verbatim>\<open>ValueError\<close> and produces no count; and
  \<open>stats\<close>, with or without today, raises \<^verbatim>\<open>ValueError\<close> on every log that passes the
  assertion on the dates and in which the entry is counted, that is, is not one of the
  entries of today taken off the end unread. (This is \<open>stats\<close> where \<open>run\<close> can print:
  as the script, or imported with \<open>porcelain\<close> set.)
\<close>

theorem negative_duration_raises:
  "time_stop e = Some t \<Longrightarrow>
   int (hour t) * 60 + int (minute t) < int (hour (time_start e)) * 60 + int (minute (time_start e)) \<Longrightarrow>
     working_time clk e = Inl ValueError
     \<and> (e \<in> set (counted clk it entries)
          \<and> max_list (map hr_date entries) = hr_date (last entries)
          \<and> (args \<noteq> None \<or> porcelain)
          \<longrightarrow> run args clk ''stats'' entries ov dr h porcelain it = Inl ValueError)"
proof (intro conjI impI)
  assume a: "time_stop e = Some t"
    "int (hour t) * 60 + int (minute t) < int (hour (time_start e)) * 60 + int (minute (time_start e))"
  then have "worked_minutes clk e < 0" by (simp add: worked_minutes_def)
  then show w: "working_time clk e = Inl ValueError" by (rule working_time_negative)
  assume b: "e \<in> set (counted clk it entries)
          \<and> max_list (map hr_date entries) = hr_date (last entries)
          \<and> (args \<noteq> None \<or> porcelain)"
  then have "e \<in> set entries" using set_counted by blast
  then have ne: "entries \<noteq> []" by auto
  show "run args clk ''stats'' entries ov dr h porcelain it = Inl ValueError"
    using b stats_raises [of e clk it entries] w
    by (simp add: run_stats_unfold [OF _ ne])
qed

text \<open>The theorem at the entry of 24/01/01 that starts at 12h00 and ends at 08h00, for the
  command line \<^verbatim>\<open>stats\<close>.\<close>

theorem negative_duration_raises_witness:
  "time_stop backwards_entry = Some \<lparr>hour = 8, minute = 0\<rparr>
   \<and> int 8 * 60 + int 0 < int (hour (time_start backwards_entry)) * 60
                             + int (minute (time_start backwards_entry))
   \<and> backwards_entry \<in> set (counted scenario_clock True [backwards_entry])
   \<and> max_list (map hr_date [backwards_entry]) = hr_date (last [backwards_entry])
   \<and> working_time scenario_clock backwards_entry = Inl ValueError
   \<and> run (Some (cli ''stats'' False False)) scenario_clock ''stats'' [backwards_entry]
        False False None False True = Inl ValueError"
proof -
  have s: "time_stop backwards_entry = Some \<lparr>hour = 8, minute = 0\<rparr>"
    by (simp add: backwards_entry_def)
  have l: "int (hour \<lparr>hour = 8, minute = 0\<rparr>) * 60 + int (minute \<lparr>hour = 8, minute = 0\<rparr>)
             < int (hour (time_start backwards_entry)) * 60
               + int (minute (time_start backwards_entry))"
    by (simp add: backwards_entry_def)
  have c: "backwards_entry \<in> set (counted scenario_clock True [backwards_entry])"
    by (simp add: counted_def)
  have m: "max_list (map hr_date [backwards_entry]) = hr_date (last [backwards_entry])"
    by (simp add: max_list_def)
  show ?thesis
    using negative_duration_raises [OF s l, of scenario_clock True "[backwards_entry]"
             "Some (cli ''stats'' False False)" False False False None] s l c m
    by simp
qed

text \<open>
  The claim as stated fails at that entry: its duration is not a negative count of
  minutes, the computation raises, and the statistics of a log that holds it raise too.
\<close>

theorem negative_duration_raises_counterexample:
  "worked_minutes scenario_clock backwards_entry = - 240
   \<and> working_time scenario_clock backwards_entry = Inl ValueError
   \<and> run (Some (cli ''stats'' False False)) scenario_clock ''stats'' [backwards_entry]
        False False None False True = Inl ValueError"
  by code_simp

section \<open>The statistics of the scenario\<close>

lemma hr_date_scenario: "map hr_date scenario_log = [''24/01/01'', ''24/01/02'']"
  by code_simp

lemma scenario_valid: "max_list (map hr_date scenario_log) = hr_date (last scenario_log)"
  by code_simp

lemma working_time_scenario:
  "map (working_time clk) scenario_log
     = [Inr \<lparr>hour = 4, minute = 0\<rparr>, Inr \<lparr>hour = 8, minute = 30\<rparr>]"
  by (simp add: scenario_log_def working_time_def datetime_time_def)

lemma account_scenario:
  "account clk scenario_log (0, []) = Inr (750, [(''24/01/01'', 240), (''24/01/02'', 510)])"
  using working_time_scenario [of clk] hr_date_scenario
  by (simp add: scenario_log_def)

text \<open>
  Claim C1, as amended. For the log of the scenario and a target of 8.0 hours a day,
  \<open>stats\<close> (today included), run as the script, returns, whatever the clock and the other
  arguments, a dictionary with 2 worked days, from 24/01/01 to 24/01/02, 750 minutes
  worked in all (240 and 510), a total deviation of -210 minutes (the two days deviate by
  -240 and +30 from the 480 minutes of the target) and an average of 375 minutes a day.
  The claim gives 730 and 365 for the total and the average.
\<close>

theorem scenario_stats:
  "stats_record (run (Some a) clk ''stats'' scenario_log ov dr (Some (Finite 8 0)) porcelain True)
     = Some \<lparr>nb_day = 2, first_day = ''24/01/01'', last_day = ''24/01/02'',
             total_worktime = 750, total_difftime = Some (- 210),
             average_per_day = 375\<rparr>
   \<and> account clk scenario_log (0, []) = Inr (750, [(''24/01/01'', 240), (''24/01/02'', 510)])
   \<and> optimal_worktime (Finite 8 0) = Inr 480
   \<and> difftime [(''24/01/01'', 240), (''24/01/02'', 510)] 480 = [- 240, 30]"
proof -
  have ne: "scenario_log \<noteq> []" by (simp add: scenario_log_def)
  have u: "Some a \<noteq> None \<or> porcelain" by simp
  have hl: "hr_date (hd scenario_log) = ''24/01/01''" "hr_date (last scenario_log) = ''24/01/02''"
    using hr_date_scenario by (simp_all add: scenario_log_def)
  have r: "py_round (750 / 2) = 375" by (simp add: py_round_def)
  show ?thesis
    using ne hl r
    by (simp add: run_stats_unfold [OF u ne scenario_valid] stats_def account_scenario
          deviation_def float_truthy_def optimal_worktime_8 difftime_def stats_record_def Let_def)
qed

text \<open>The theorem on 24/01/03 at 10h00, for the command line
  \<^verbatim>\<open>stats --hours-per-day 8.0\<close>.\<close>

theorem scenario_stats_witness:
  "stats_record (run (Some (cli_stats (Finite 8 0))) scenario_clock ''stats'' scenario_log
                   False False (Some (Finite 8 0)) False True)
     = Some \<lparr>nb_day = 2, first_day = ''24/01/01'', last_day = ''24/01/02'',
             total_worktime = 750, total_difftime = Some (- 210),
             average_per_day = 375\<rparr>"
  using scenario_stats [of "cli_stats (Finite 8 0)" scenario_clock False False False] by simp

text \<open>
  The claim as stated fails there: the total is 750 minutes and the average 375, not 730
  and 365.
\<close>

theorem scenario_stats_counterexample:
  "map_option total_worktime
     (stats_record (run (Some (cli_stats (Finite 8 0))) scenario_clock ''stats'' scenario_log
                      False False (Some (Finite 8 0)) False True))
     = Some 750
   \<and> map_option average_per_day
     (stats_record (run (Some (cli_stats (Finite 8 0))) scenario_clock ''stats'' scenario_log
                      False False (Some (Finite 8 0)) False True))
     = Some 375
   \<and> (750 :: int) \<noteq> 730 \<and> (375 :: int) \<noteq> 365"
  by code_simp

section \<open>The deviation\<close>

text \<open>
  Claim C7, as amended. Whenever \<open>stats\<close> returns, it returns a dictionary. Without a
  target (\<open>hours_per_day\<close> missing or zero) the dictionary has no total deviation. With a
  target \<open>h\<close>, the total deviation is the sum, over the days that are keys of the work
  map \<open>wa\<close>, of the minutes of that day minus \<^verbatim>\<open>int(h * 60)\<close>: the product as the
  floats give it, rounded to a double, with its fraction dropped towards zero, and not
  \<open>h * 60\<close> itself as the claim has it. The keys of the work map are the days of the
  counted entries, each once, and its amount for a day is the sum of the minutes of the
  counted entries of that day; a day with no entry is no key and adds nothing.
\<close>

theorem stats_deviation:
  assumes "run args clk ''stats'' entries ov dr hours_per_day porcelain include_today = Inr res"
  shows "\<exists>d t wa. returned res = Ret_outdata d
           \<and> account clk (counted clk include_today entries) (0, []) = Inr (t, wa)
           \<and> distinct (map fst wa)
           \<and> fst ` set wa = hr_date ` set (counted clk include_today entries)
           \<and> (\<forall>k. amount wa k = day_minutes clk (counted clk include_today entries) k)
           \<and> (case hours_per_day of
                 None \<Rightarrow> total_difftime d = None
               | Some h \<Rightarrow>
                   if \<not> float_truthy h then total_difftime d = None
                   else (\<exists>w. optimal_worktime h = Inr w
                           \<and> total_difftime d = Some (\<Sum>k\<in>fst ` set wa. amount wa k - w)))"
proof -
  let ?es = "counted clk include_today entries"
  obtain out0 where "stats args clk entries hours_per_day porcelain include_today out0 = Inr res"
    using run_stats_Inr [OF assms] by blast
  from stats_Inr [OF this] obtain t wa dev where
    a: "account clk ?es (0, []) = Inr (t, wa)" and
    v: "deviation hours_per_day wa = Inr dev" and
    r: "returned res = Ret_outdata
                \<lparr>nb_day = int (length wa),
                 first_day = hr_date (hd ?es),
                 last_day = hr_date (last ?es),
                 total_worktime = t,
                 total_difftime = dev,
                 average_per_day =
                   py_round (of_int (sum_list (map snd wa)) / of_nat (length wa))\<rparr>"
    by blast
  have d: "distinct (map fst wa)" by (rule account_empty_acc(2) [OF a])
  have k: "fst ` set wa = hr_date ` set ?es"
    using account_empty_acc(3) [OF a] by simp
  have m: "\<forall>k. amount wa k = day_minutes clk ?es k"
    using account_empty_acc(4) [OF a] by simp
  have "case hours_per_day of
                 None \<Rightarrow> dev = None
               | Some h \<Rightarrow>
                   if \<not> float_truthy h then dev = None
                   else (\<exists>w. optimal_worktime h = Inr w
                           \<and> dev = Some (\<Sum>k\<in>fst ` set wa. amount wa k - w))"
    using v sum_list_difftime [OF d]
    by (auto simp: deviation_def split: option.splits sum.splits if_splits)
  then show ?thesis using a r d k m by (auto split: option.splits)
qed

text \<open>
  The theorem for the command line \<^verbatim>\<open>stats --hours-per-day 7.125\<close> at the scenario
  (427 minutes once the fraction is dropped): the deviation returned, -104, is the sum
  over the two days.
\<close>

theorem stats_deviation_witness:
  "stats_record (run (Some (cli_stats (Finite 57 (- 3)))) scenario_clock ''stats'' scenario_log
                   False False (Some (Finite 57 (- 3))) False True)
     = Some \<lparr>nb_day = 2, first_day = ''24/01/01'', last_day = ''24/01/02'',
             total_worktime = 750, total_difftime = Some (- 104), average_per_day = 375\<rparr>
   \<and> (\<exists>t wa w. account scenario_clock (counted scenario_clock True scenario_log) (0, []) = Inr (t, wa)
         \<and> fst ` set wa = hr_date ` set (counted scenario_clock True scenario_log)
         \<and> optimal_worktime (Finite 57 (- 3)) = Inr w
         \<and> Some (- 104) = Some (\<Sum>k\<in>fst ` set wa. amount wa k - w))"
proof -
  have r: "run (Some (cli_stats (Finite 57 (- 3)))) scenario_clock ''stats'' scenario_log
             False False (Some (Finite 57 (- 3))) False True
      = Inr \<lparr>objects = scenario_log,
             printed =
               [Last_entry_ago \<lparr>year = 2024, month = 1, day = 3\<rparr>
                  \<lparr>year = 2024, month = 1, day = 2\<rparr>,
                Statistics_on 2 True ''24/01/01'' ''24/01/02'',
                Worked_total ''12h30m'', Have_to_work ''01h44m'',
                Average_per_day ''06h15m''],
             returned = Ret_outdata
               \<lparr>nb_day = 2, first_day = ''24/01/01'', last_day = ''24/01/02'',
                total_worktime = 750, total_difftime = Some (- 104),
                average_per_day = 375\<rparr>\<rparr>"
    by code_simp
  have t: "float_truthy (Finite 57 (- 3))" by (simp add: float_truthy_def)
  show ?thesis
    using stats_deviation [OF r] r t by (auto simp: stats_record_def)
qed

text \<open>
  The claim as stated fails for \<^verbatim>\<open>stats --hours-per-day 7.125\<close> on the log of the first
  day of the scenario alone (240 minutes): the claim's sum is 240 - 7.125 * 60 = -187.5,
  the deviation returned is 240 - 427 = -187.
\<close>

theorem stats_deviation_counterexample:
  "stats_record (run (Some (cli_stats (Finite 57 (- 3)))) scenario_clock ''stats''
                   (take 1 scenario_log) False False (Some (Finite 57 (- 3))) False True)
     = Some \<lparr>nb_day = 1, first_day = ''24/01/01'', last_day = ''24/01/01'',
             total_worktime = 240, total_difftime = Some (- 187), average_per_day = 240\<rparr>
   \<and> float_value 57 (- 3) = 57 / 8
   \<and> (of_int (- 187) :: rat) \<noteq> 240 - float_value 57 (- 3) * 60"
proof -
  have "stats_record (run (Some (cli_stats (Finite 57 (- 3)))) scenario_clock ''stats''
                   (take 1 scenario_log) False False (Some (Finite 57 (- 3))) False True)
     = Some \<lparr>nb_day = 1, first_day = ''24/01/01'', last_day = ''24/01/01'',
             total_worktime = 240, total_difftime = Some (- 187), average_per_day = 240\<rparr>"
    by code_simp
  then show ?thesis by (simp add: float_value_def)
qed

text \<open>
  The product is the floats': for \<^verbatim>\<open>stats --hours-per-day 8.2\<close> the target is 491
  minutes (8.2 * 60 is 491.99999999999994 as a double), and the deviation of the same log
  is 240 - 491 = -251.
\<close>

lemma stats_hours_8_2:
  "map_option total_difftime
     (stats_record (run (Some (cli_stats (Finite 2308094809027379 (- 48)))) scenario_clock ''stats''
                      (take 1 scenario_log) False False (Some (Finite 2308094809027379 (- 48)))
                      False True))
     = Some (Some (- 251))"
  by code_simp

section \<open>Statistics without today\<close>

text \<open>
  When the dates of the log are in order and none is after the clock's day, the entries
  of that day are the end of the log, and what \<open>stats\<close> counts without today is the
  log without them: the total then holds no minute of today.
\<close>

lemma counted_filter:
  assumes "sorted (map hr_date es)" "\<forall>e\<in>set es. hr_date e \<le> today"
  shows "rev (dropWhile (\<lambda>e. hr_date e = today) (rev es)) = filter (\<lambda>e. hr_date e \<noteq> today) es"
  using assms
proof (induction es rule: rev_induct)
  case Nil
  then show ?case by simp
next
  case (snoc x xs)
  have s: "sorted (map hr_date xs)" and le: "\<forall>e\<in>set xs. hr_date e \<le> hr_date x"
    using snoc.prems(1) by (auto simp: sorted_append)
  show ?case
  proof (cases "hr_date x = today")
    case True
    then show ?thesis using snoc.IH [OF s] snoc.prems(2) by simp
  next
    case False
    then have "hr_date x < today" using snoc.prems(2) by (simp add: less_le)
    then have "\<forall>e\<in>set xs. hr_date e \<noteq> today" using le by auto
    then show ?thesis using False by simp
  qed
qed

lemma stats_excludes_today:
  assumes "sorted (map hr_date entries)"
    and "\<forall>e\<in>set entries. hr_date e \<le> hr_date (now_arrived clk)"
    and "run args clk ''stats'' entries ov dr h porcelain False = Inr res"
  shows "\<exists>d. returned res = Ret_outdata d
           \<and> total_worktime d =
               sum_list (map (worked_minutes clk)
                 (filter (\<lambda>e. hr_date e \<noteq> hr_date (now_arrived clk)) entries))"
proof -
  obtain out0 where "stats args clk entries h porcelain False out0 = Inr res"
    using run_stats_Inr [OF assms(3)] by blast
  from stats_Inr [OF this] obtain t wa where
    a: "account clk (counted clk False entries) (0, []) = Inr (t, wa)" and
    r: "total_worktime (case returned res of Ret_outdata d \<Rightarrow> d) = t"
       "\<exists>d. returned res = Ret_outdata d"
    by auto
  have "counted clk False entries = filter (\<lambda>e. hr_date e \<noteq> hr_date (now_arrived clk)) entries"
    using counted_filter [OF assms(1,2)] by (simp add: counted_def)
  then show ?thesis using account_empty_acc(1) [OF a] r by auto
qed

lemma stats_all_today_raises:
  assumes "entries \<noteq> []" "\<forall>e\<in>set entries. hr_date e = hr_date (now_arrived clk)"
    and "args \<noteq> None \<or> porcelain"
  shows "run args clk ''stats'' entries ov dr h porcelain False = Inl IndexError"
proof -
  have m: "max_list (map hr_date entries) = hr_date (last entries)"
  proof -
    have "\<And>a. (\<forall>e\<in>set es. hr_date e = a) \<Longrightarrow> fold max (map hr_date es) a = a" for es
      by (induction es) auto
    then have "fold max (map hr_date (tl entries)) (hr_date (hd entries)) = hr_date (hd entries)"
      using assms(1,2) by (metis list.set_sel(1) list.set_sel(2))
    then show ?thesis using assms(1,2) by (simp add: max_list_def map_tl hd_map)
  qed
  show ?thesis
    using pop_today_all_today [OF assms(2)] assms(1)
    by (simp add: run_stats_unfold [OF assms(3,1) m] stats_def)
qed


text \<open>
  Claim C2 fails on the code when every entry of the log is of today: the loop that
  takes today's entries off the end reads \<^verbatim>\<open>entries[-1]\<close> again once the list is
  empty, and \<open>stats\<close> raises \<^verbatim>\<open>IndexError\<close> instead of returning. Here on the log
  whose only entry is the open session of today, as \<^verbatim>\<open>stats --not-today\<close> from the
  command line: the script, and the call of \<open>run\<close> it makes.
\<close>

theorem stats_not_today_only_today:
  "main (cli ''stats'' False True) scenario_clock today_log = Inl IndexError
   \<and> run (Some (cli ''stats'' False True)) scenario_clock ''stats'' today_log
        False False None False False = Inl IndexError
   \<and> list_all (is_today scenario_clock) today_log"
  by code_simp

section \<open>The porcelain flag\<close>

lemma stats_record_cong:
  assumes "map_sum id (\<lambda>r. (objects r, returned r)) x = map_sum id (\<lambda>r. (objects r, returned r)) y"
  shows "stats_record x = stats_record y"
  using assms by (cases x; cases y) (auto simp: stats_record_def)

lemma run_porcelain_script:
  "map_sum id (\<lambda>r. (objects r, returned r)) (run (Some a) clk ''stats'' entries ov dr h True it)
     = map_sum id (\<lambda>r. (objects r, returned r)) (run (Some a) clk ''stats'' entries ov dr h False it)"
  by (simp add: run_def Let_def stats_porcelain)

lemma run_imported_no_record:
  "stats_record (run None clk ''stats'' entries ov dr h porcelain it) = None"
proof (cases "run None clk ''stats'' entries ov dr h porcelain it")
  case (Inl err)
  then show ?thesis by (simp add: stats_record_def)
next
  case (Inr res)
  then obtain out0 where s: "stats None clk entries h porcelain it out0 = Inr res"
    using run_stats_Inr by blast
  have "porcelain" using Inr by (auto simp: run_def split: if_splits)
  then show ?thesis using s stats_imported_porcelain by simp
qed

text \<open>
  Claim C10. For every log, clock and target, and whatever the other arguments, the
  dictionary \<open>stats\<close> returns is the same with and without \<open>porcelain\<close> (in an imported
  module \<open>stats\<close> returns none either way, for it raises where it reads
  \<^verbatim>\<open>__builtins__.print\<close>). As the script, \<open>stats\<close> with and without the flag ends the
  same way altogether: it raises the same error, or it returns the same dictionary and
  leaves the caller's entries the same. The flag changes only the lines printed.
\<close>

theorem porcelain_same_record:
  "stats_record (run args clk ''stats'' entries ov dr h True it)
     = stats_record (run args clk ''stats'' entries ov dr h False it)
   \<and> map_sum id (\<lambda>r. (objects r, returned r)) (run (Some a) clk ''stats'' entries ov dr h True it)
     = map_sum id (\<lambda>r. (objects r, returned r)) (run (Some a) clk ''stats'' entries ov dr h False it)"
proof (intro conjI)
  show "stats_record (run args clk ''stats'' entries ov dr h True it)
     = stats_record (run args clk ''stats'' entries ov dr h False it)"
  proof (cases args)
    case None
    then show ?thesis by (simp add: run_imported_no_record)
  next
    case (Some b)
    then show ?thesis using stats_record_cong [OF run_porcelain_script] by simp
  qed
qed (rule run_porcelain_script)

text \<open>The theorem at the scenario, for the command lines \<^verbatim>\<open>stats --hours-per-day 8.0\<close>
  and \<^verbatim>\<open>stats --porcelain --hours-per-day 8.0\<close>: the dictionary computed with the flag
  is the one returned without it.\<close>

theorem porcelain_same_record_witness:
  "map_sum id (\<lambda>r. (objects r, returned r))
     (run (Some (cli_stats (Finite 8 0))) scenario_clock ''stats'' scenario_log
        False False (Some (Finite 8 0)) False True)
     = Inr (scenario_log,
            Ret_outdata \<lparr>nb_day = 2, first_day = ''24/01/01'', last_day = ''24/01/02'',
                          total_worktime = 750, total_difftime = Some (- 210),
                          average_per_day = 375\<rparr>)"
proof -
  have "map_sum id (\<lambda>r. (objects r, returned r))
     (run (Some (cli_stats (Finite 8 0))) scenario_clock ''stats'' scenario_log
        False False (Some (Finite 8 0)) True True)
     = Inr (scenario_log,
            Ret_outdata \<lparr>nb_day = 2, first_day = ''24/01/01'', last_day = ''24/01/02'',
                          total_worktime = 750, total_difftime = Some (- 210),
                          average_per_day = 375\<rparr>)"
    by code_simp
  then show ?thesis
    using porcelain_same_record [of None scenario_clock scenario_log False False
            "Some (Finite 8 0)" True "cli_stats (Finite 8 0)"]
    by simp
qed

text \<open>The flag is not idle in the model: the lines printed differ.\<close>

lemma porcelain_changes_printed:
  "map_sum id printed
     (run (Some (cli_stats (Finite 8 0))) scenario_clock ''stats'' scenario_log
        False False (Some (Finite 8 0)) True True)
   \<noteq> map_sum id printed
     (run (Some (cli_stats (Finite 8 0))) scenario_clock ''stats'' scenario_log
        False False (Some (Finite 8 0)) False True)"
  by code_simp

end
